theory Spec2Isabelle
  imports Complex_Main
begin

section \<open>JavaScript values used by the clock\<close>

text \<open>
  A JavaScript number that the program only ever uses as an integer (a time value in
  milliseconds, a calendar field, an offset) is \<open>Num k\<close>; \<open>NaN\<close> is the
  not-a-number value. Arithmetic with \<open>NaN\<close> gives \<open>NaN\<close>. The sums and
  differences written with \<open>jsadd\<close> and \<open>jssub\<close> are exact: their operands are
  calendar fields, dates of one year, or a sum that \<open>new Date\<close> clips (a double is
  exact up to \<open>2^53\<close>, beyond the range of valid dates). The one difference of two
  arbitrary dates, in \<open>calculateOffset\<close>, is rounded as a double is.
\<close>

datatype jsnum = NaN | Num int

fun jsadd :: "jsnum \<Rightarrow> jsnum \<Rightarrow> jsnum" where
  "jsadd (Num a) (Num b) = Num (a + b)"
| "jsadd _ _ = NaN"

fun jssub :: "jsnum \<Rightarrow> jsnum \<Rightarrow> jsnum" where
  "jssub (Num a) (Num b) = Num (a - b)"
| "jssub _ _ = NaN"

text \<open>\<open>a || b\<close> on numbers: \<open>NaN\<close> and \<open>0\<close> are falsy.\<close>

fun jsor :: "jsnum \<Rightarrow> jsnum \<Rightarrow> jsnum" where
  "jsor NaN b = b"
| "jsor (Num a) b = (if a = 0 then b else Num a)"

text \<open>
  A \<open>Date\<close> object holds one time value: milliseconds since the epoch, or \<open>NaN\<close>
  (an "Invalid Date"). \<open>new Date(v)\<close> clips the value to the range of valid dates.
\<close>

datatype jsdate = Date jsnum

fun getTime :: "jsdate \<Rightarrow> jsnum" where
  "getTime (Date v) = v"

definition maxTime :: int where
  "maxTime = 8640000000000000"

fun timeClip :: "jsnum \<Rightarrow> jsnum" where
  "timeClip NaN = NaN"
| "timeClip (Num t) = (if \<bar>t\<bar> > maxTime then NaN else Num t)"

definition newDate :: "jsnum \<Rightarrow> jsdate" where
  "newDate v = Date (timeClip v)"

text \<open>\<open>ToIntegerOrInfinity\<close> on a finite number: truncation towards zero.\<close>

definition jsTrunc :: "rat \<Rightarrow> int" where
  "jsTrunc x = (if x < 0 then \<lceil>x\<rceil> else \<lfloor>x\<rfloor>)"

text \<open>
  The nearest double of an integer, ties to the even significand: integers below
  \<open>2^53\<close> in magnitude are doubles; above, a double is a multiple of \<open>ulpOf\<close>,
  the power of two that leaves 53 significant bits. (Overflow to infinity, beyond
  \<open>2^1024\<close>, is not modelled.)
\<close>

fun ulpOf :: "nat \<Rightarrow> nat" where
  "ulpOf m = (if m < 9007199254740992 then 1 else 2 * ulpOf (m div 2))"

declare ulpOf.simps [simp del]

definition roundToDouble :: "int \<Rightarrow> int" where
  "roundToDouble x =
     (let m = nat \<bar>x\<bar>; u = ulpOf m; q = m div u; r = m mod u
      in sgn x * int ((if 2 * r > u \<or> (2 * r = u \<and> odd q) then q + 1 else q) * u))"

fun jsround :: "jsnum \<Rightarrow> jsnum" where
  "jsround NaN = NaN"
| "jsround (Num k) = Num (roundToDouble k)"

text \<open>
  Numbers that need not be whole (a quotient of milliseconds by a day, an offset of
  5.5 hours) are rationals, \<open>None\<close> standing for \<open>NaN\<close>.
\<close>

fun toReal :: "jsnum \<Rightarrow> rat option" where
  "toReal NaN = None"
| "toReal (Num k) = Some (of_int k)"

fun mathCeil :: "rat option \<Rightarrow> jsnum" where
  "mathCeil None = NaN"
| "mathCeil (Some x) = Num \<lceil>x\<rceil>"

fun newDateReal :: "rat option \<Rightarrow> jsdate" where
  "newDateReal None = Date NaN"
| "newDateReal (Some x) = (if \<bar>x\<bar> > of_int maxTime then Date NaN else Date (Num (jsTrunc x)))"

text \<open>The values a dynamically typed argument or field can hold in this program.\<close>

datatype jsval = VDate jsdate | VNum jsnum | VStr string | VBool bool | VNull | VUndefined

datatype jserror = Error string | RangeError string | TypeError string

section \<open>NTPService: offset and synchronisation state\<close>

text \<open>
  \<open>calculateOffset(ntpTime, localTime)\<close>: the guard is \<open>instanceof Date\<close> on both
  arguments; two \<open>Date\<close> objects give \<open>ntpTime.getTime() - localTime.getTime()\<close>,
  a subtraction of doubles.
\<close>

fun calculateOffset :: "jsval \<Rightarrow> jsval \<Rightarrow> jserror + jsnum" where
  "calculateOffset (VDate ntpTime) (VDate localTime) =
     Inr (jsround (jssub (getTime ntpTime) (getTime localTime)))"
| "calculateOffset _ _ =
     Inl (Error ''Invalid date objects provided for offset calculation'')"

fun instanceofDate :: "jsval \<Rightarrow> bool" where
  "instanceofDate (VDate _) = True"
| "instanceofDate _ = False"

text \<open>
  The fields of an \<open>NTPService\<close> that synchronisation reads and writes.
  \<open>lastSyncTime\<close> is \<open>null\<close> (\<open>None\<close>) until a sync succeeds; \<open>syncTimer\<close>
  records whether an interval timer is installed.
\<close>

record ntp_state =
  timeOffset :: jsnum
  lastSyncTime :: "jsdate option"
  syncInterval :: int
  syncTimer :: bool
  isOnlineMode :: bool

definition ntp_init :: ntp_state where
  "ntp_init = \<lparr> timeOffset = Num 0, lastSyncTime = None,
                syncInterval = 15 * 60 * 1000, syncTimer = False, isOnlineMode = True \<rparr>"

definition handleSyncFailure :: "ntp_state \<Rightarrow> ntp_state" where
  "handleSyncFailure s =
     (let s1 = s\<lparr>isOnlineMode := False\<rparr>
      in if lastSyncTime s1 = None then s1\<lparr>timeOffset := Num 0\<rparr> else s1)"

text \<open>
  \<open>performSync\<close>. Its inputs from outside the object are \<open>navigator.onLine\<close>, what
  \<open>await this.fetchNTPTime()\<close> yields (a thrown error, or the \<open>Date\<close> that
  \<open>parseTimeResponse\<close> built), and the three readings of the local clock
  (\<open>t0\<close> before the request, \<open>t1\<close> after it, \<open>t2\<close> for \<open>lastSyncTime\<close>).
  All reads and writes of the object's fields happen after the \<open>await\<close>, in one
  uninterrupted block, so one call is one state transition. The result is the returned
  boolean and the new state. An exception from \<open>calculateOffset\<close> would land in the
  same \<open>catch\<close> as a failed fetch. The adjusted local time is exact for clock
  readings below \<open>2^52\<close> milliseconds, where a double still holds half a millisecond.
\<close>

definition syncCatch :: "ntp_state \<Rightarrow> bool \<times> ntp_state" where
  "syncCatch s = (False, if isOnlineMode s then handleSyncFailure s else s)"

definition performSync ::
  "bool \<Rightarrow> jserror + jsdate \<Rightarrow> int \<Rightarrow> int \<Rightarrow> int \<Rightarrow> ntp_state \<Rightarrow> bool \<times> ntp_state" where
  "performSync navigatorOnLine fetched t0 t1 t2 s =
     (if \<not> navigatorOnLine then (False, s)
      else case fetched of
        Inl err \<Rightarrow> syncCatch s
      | Inr ntpTime \<Rightarrow>
          (let networkDelay = (of_int t1 - of_int t0) / (2 :: rat);
               adjustedLocalTime = newDateReal (Some (of_int t0 + networkDelay))
           in case calculateOffset (VDate ntpTime) (VDate adjustedLocalTime) of
                Inl err \<Rightarrow> syncCatch s
              | Inr off \<Rightarrow>
                  (True, s\<lparr>timeOffset := off, lastSyncTime := Some (Date (Num t2)),
                           isOnlineMode := True\<rparr>)))"

text \<open>\<open>getCurrentTime\<close>, with \<open>now\<close> the reading of \<open>new Date()\<close>.\<close>

definition getCurrentTime :: "int \<Rightarrow> ntp_state \<Rightarrow> jsdate" where
  "getCurrentTime now s =
     (let localTime = Date (Num now)
      in if isOnlineMode s \<or> lastSyncTime s \<noteq> None
         then newDate (jsadd (getTime localTime) (timeOffset s))
         else localTime)"

record sync_status =
  isOnline :: bool
  status_lastSyncTime :: "jsdate option"
  status_timeOffset :: jsnum
  status_syncInterval :: int
  isUsingNTPTime :: bool

definition getSyncStatus :: "ntp_state \<Rightarrow> sync_status" where
  "getSyncStatus s =
     \<lparr> isOnline = isOnlineMode s,
       status_lastSyncTime = lastSyncTime s,
       status_timeOffset = timeOffset s,
       status_syncInterval = syncInterval s,
       isUsingNTPTime = (isOnlineMode s \<or> lastSyncTime s \<noteq> None) \<rparr>"

text \<open>
  The timer methods. \<open>startPeriodicSync\<close> also calls \<open>performSync()\<close> without
  awaiting it; that call, like every tick of the interval timer, completes later as a
  transition of its own.
\<close>

definition stopPeriodicSync :: "ntp_state \<Rightarrow> ntp_state" where
  "stopPeriodicSync s = (if syncTimer s then s\<lparr>syncTimer := False\<rparr> else s)"

definition startPeriodicSync :: "int \<Rightarrow> ntp_state \<Rightarrow> ntp_state" where
  "startPeriodicSync intervalMinutes s =
     (stopPeriodicSync (s\<lparr>syncInterval := intervalMinutes * 60 * 1000\<rparr>))\<lparr>syncTimer := True\<rparr>"

definition setSyncInterval :: "int \<Rightarrow> ntp_state \<Rightarrow> jserror + ntp_state" where
  "setSyncInterval intervalMinutes s =
     (if intervalMinutes < 1 then Inl (Error ''Sync interval must be at least 1 minute'')
      else let s1 = s\<lparr>syncInterval := intervalMinutes * 60 * 1000\<rparr>
           in Inr (if syncTimer s1 then startPeriodicSync intervalMinutes s1 else s1))"

text \<open>
  Everything that can happen to an \<open>NTPService\<close> after construction: the two window
  events of \<open>setupNetworkListeners\<close>, the public timer methods, and the completion of a
  \<open>performSync\<close> call (from \<open>startPeriodicSync\<close>, the timer, or \<open>forcSync\<close>);
  \<open>destroy\<close> only stops the timer. A run is a list of such events.
\<close>

datatype ntp_event =
    OnlineEvent
  | OfflineEvent
  | StartPeriodicSync int
  | StopPeriodicSync
  | SetSyncInterval int
  | SyncCompleted bool "jserror + jsdate" int int int

fun ntp_step :: "ntp_event \<Rightarrow> ntp_state \<Rightarrow> ntp_state" where
  "ntp_step OnlineEvent s = startPeriodicSync 15 (s\<lparr>isOnlineMode := True\<rparr>)"
| "ntp_step OfflineEvent s = stopPeriodicSync (s\<lparr>isOnlineMode := False\<rparr>)"
| "ntp_step (StartPeriodicSync m) s = startPeriodicSync m s"
| "ntp_step StopPeriodicSync s = stopPeriodicSync s"
| "ntp_step (SetSyncInterval m) s =
     (case setSyncInterval m s of Inl err \<Rightarrow> s | Inr s' \<Rightarrow> s')"
| "ntp_step (SyncCompleted nav fetched t0 t1 t2) s = snd (performSync nav fetched t0 t1 t2 s)"

fun ntp_run :: "ntp_event list \<Rightarrow> ntp_state \<Rightarrow> ntp_state" where
  "ntp_run [] s = s"
| "ntp_run (e # es) s = ntp_run es (ntp_step e s)"

section \<open>TimeController: its own offset and sync flag\<close>

record tc_state =
  tc_timeOffset :: jsnum
  isNTPSynced :: bool
  tc_lastSyncTime :: "jsdate option"

definition tc_init :: tc_state where
  "tc_init = \<lparr> tc_timeOffset = Num 0, isNTPSynced = False, tc_lastSyncTime = None \<rparr>"

definition handleOfflineMode :: "tc_state \<Rightarrow> tc_state" where
  "handleOfflineMode s = s\<lparr>isNTPSynced := False, tc_timeOffset := Num 0\<rparr>"

text \<open>
  \<open>syncWithNTP\<close>: \<open>fetched\<close> is what \<open>await this.ntpService.fetchNTPTime()\<close> yields,
  \<open>tloc\<close> and \<open>t2\<close> the two readings of \<open>new Date()\<close>. The error is rethrown after
  \<open>handleOfflineMode\<close>, so the result is the outcome together with the new state.
\<close>

definition syncWithNTP ::
  "jserror + jsdate \<Rightarrow> int \<Rightarrow> int \<Rightarrow> tc_state \<Rightarrow> (jserror + unit) \<times> tc_state" where
  "syncWithNTP fetched tloc t2 s =
     (case fetched of
        Inl err \<Rightarrow> (Inl err, handleOfflineMode s)
      | Inr ntpTime \<Rightarrow>
          (let localTime = Date (Num tloc)
           in case calculateOffset (VDate ntpTime) (VDate localTime) of
                Inl err \<Rightarrow> (Inl err, handleOfflineMode s)
              | Inr off \<Rightarrow>
                  (Inr (), s\<lparr>tc_timeOffset := off, isNTPSynced := True,
                             tc_lastSyncTime := Some (Date (Num t2))\<rparr>)))"

section \<open>The calendar of the runtime\<close>

text \<open>
  The day and time functions of the ECMAScript \<open>Date\<close> object, on integers
  (\<open>div\<close> and \<open>mod\<close> on \<open>int\<close> round down, as the standard's
  \<open>floor\<close> and \<open>modulo\<close> do).
\<close>

definition msPerDay :: int where
  "msPerDay = 86400000"

definition Day :: "int \<Rightarrow> int" where
  "Day t = t div msPerDay"

definition TimeWithinDay :: "int \<Rightarrow> int" where
  "TimeWithinDay t = t mod msPerDay"

definition DaysInYear :: "int \<Rightarrow> int" where
  "DaysInYear y =
     (if y mod 4 \<noteq> 0 then 365 else if y mod 100 \<noteq> 0 then 366
      else if y mod 400 \<noteq> 0 then 365 else 366)"

definition DayFromYear :: "int \<Rightarrow> int" where
  "DayFromYear y = 365 * (y - 1970) + (y - 1969) div 4 - (y - 1901) div 100 + (y - 1601) div 400"

text \<open>
  The year of a day number: the largest \<open>y\<close> with \<open>DayFromYear y \<le> d\<close>. A year
  has 146097/400 days on average, which gives an estimate at most one year off.
\<close>

definition YearFromDay :: "int \<Rightarrow> int" where
  "YearFromDay d =
     (let y0 = 1970 + (d * 400) div 146097
      in if DayFromYear (y0 + 1) \<le> d then y0 + 1
         else if DayFromYear y0 \<le> d then y0 else y0 - 1)"

definition YearFromTime :: "int \<Rightarrow> int" where
  "YearFromTime t = YearFromDay (Day t)"

definition InLeapYear :: "int \<Rightarrow> int" where
  "InLeapYear t = (if DaysInYear (YearFromTime t) = 366 then 1 else 0)"

definition DayWithinYear :: "int \<Rightarrow> int" where
  "DayWithinYear t = Day t - DayFromYear (YearFromTime t)"

text \<open>The day within the year at which month \<open>m\<close> (0 to 11) starts.\<close>

definition monthStart :: "int \<Rightarrow> int \<Rightarrow> int" where
  "monthStart leap m =
     (if m = 0 then 0 else if m = 1 then 31 else if m = 2 then 59 + leap
      else if m = 3 then 90 + leap else if m = 4 then 120 + leap
      else if m = 5 then 151 + leap else if m = 6 then 181 + leap
      else if m = 7 then 212 + leap else if m = 8 then 243 + leap
      else if m = 9 then 273 + leap else if m = 10 then 304 + leap else 334 + leap)"

definition MonthFromTime :: "int \<Rightarrow> int" where
  "MonthFromTime t =
     (let d = DayWithinYear t; leap = InLeapYear t
      in if d < 31 then 0 else if d < 59 + leap then 1 else if d < 90 + leap then 2
         else if d < 120 + leap then 3 else if d < 151 + leap then 4
         else if d < 181 + leap then 5 else if d < 212 + leap then 6
         else if d < 243 + leap then 7 else if d < 273 + leap then 8
         else if d < 304 + leap then 9 else if d < 334 + leap then 10 else 11)"

definition DateFromTime :: "int \<Rightarrow> int" where
  "DateFromTime t = DayWithinYear t - monthStart (InLeapYear t) (MonthFromTime t) + 1"

definition WeekDay :: "int \<Rightarrow> int" where
  "WeekDay t = (Day t + 4) mod 7"

definition HourFromTime :: "int \<Rightarrow> int" where
  "HourFromTime t = (t div 3600000) mod 24"

definition MinFromTime :: "int \<Rightarrow> int" where
  "MinFromTime t = (t div 60000) mod 60"

definition SecFromTime :: "int \<Rightarrow> int" where
  "SecFromTime t = (t div 1000) mod 60"

definition MakeDay :: "int \<Rightarrow> int \<Rightarrow> int \<Rightarrow> int" where
  "MakeDay yr month dt =
     (let ym = yr + month div 12; mn = month mod 12
      in DayFromYear ym + monthStart (if DaysInYear ym = 366 then 1 else 0) mn + dt - 1)"

definition MakeDate :: "int \<Rightarrow> int \<Rightarrow> int" where
  "MakeDate dy tm = dy * msPerDay + tm"

text \<open>
  What the program takes from its runtime: the offset of the system time zone
  (\<open>LocalTZA(t, isUTC)\<close> of the standard, in milliseconds), the time zone database
  behind \<open>Intl.DateTimeFormat\<close> (which identifiers it knows, and the offset of each
  at a UTC instant), and whether the formatter writes midnight as hour 24 when asked
  for \<open>hour12: false\<close> (engines differ). Engines also differ in the messages of
  the two \<open>RangeError\<close>s (for an unknown zone, which the message may name, and for an
  invalid time value) and in the year \<open>new Date\<close> reads from a date text whose year
  has fewer than four digits.
\<close>

record runtime =
  localTZA :: "int \<Rightarrow> bool \<Rightarrow> int"
  zoneSupported :: "string \<Rightarrow> bool"
  zoneOffset :: "string \<Rightarrow> int \<Rightarrow> int"
  midnightAs24 :: bool
  zoneErrorText :: "string \<Rightarrow> string"
  timeErrorText :: string
  readBackYear :: "int \<Rightarrow> int"

definition LocalTime :: "runtime \<Rightarrow> int \<Rightarrow> int" where
  "LocalTime rt t = t + localTZA rt t True"

definition UTC :: "runtime \<Rightarrow> int \<Rightarrow> int" where
  "UTC rt t = t - localTZA rt t False"

text \<open>The getters of a \<open>Date\<close>: \<open>NaN\<close> on an invalid date.\<close>

definition localField :: "(int \<Rightarrow> int) \<Rightarrow> runtime \<Rightarrow> jsdate \<Rightarrow> jsnum" where
  "localField f rt d = (case getTime d of NaN \<Rightarrow> NaN | Num t \<Rightarrow> Num (f (LocalTime rt t)))"

definition utcField :: "(int \<Rightarrow> int) \<Rightarrow> jsdate \<Rightarrow> jsnum" where
  "utcField f d = (case getTime d of NaN \<Rightarrow> NaN | Num t \<Rightarrow> Num (f t))"

definition getHours :: "runtime \<Rightarrow> jsdate \<Rightarrow> jsnum" where
  "getHours = localField HourFromTime"

definition getMinutes :: "runtime \<Rightarrow> jsdate \<Rightarrow> jsnum" where
  "getMinutes = localField MinFromTime"

definition getSeconds :: "runtime \<Rightarrow> jsdate \<Rightarrow> jsnum" where
  "getSeconds = localField SecFromTime"

definition getDay :: "runtime \<Rightarrow> jsdate \<Rightarrow> jsnum" where
  "getDay = localField WeekDay"

definition getDate :: "runtime \<Rightarrow> jsdate \<Rightarrow> jsnum" where
  "getDate = localField DateFromTime"

definition getMonth :: "runtime \<Rightarrow> jsdate \<Rightarrow> jsnum" where
  "getMonth = localField MonthFromTime"

definition getFullYear :: "runtime \<Rightarrow> jsdate \<Rightarrow> jsnum" where
  "getFullYear = localField YearFromTime"

definition getUTCHours :: "jsdate \<Rightarrow> jsnum" where
  "getUTCHours = utcField HourFromTime"

definition getUTCMinutes :: "jsdate \<Rightarrow> jsnum" where
  "getUTCMinutes = utcField MinFromTime"

definition getUTCSeconds :: "jsdate \<Rightarrow> jsnum" where
  "getUTCSeconds = utcField SecFromTime"

definition getUTCDay :: "jsdate \<Rightarrow> jsnum" where
  "getUTCDay = utcField WeekDay"

definition getUTCDate :: "jsdate \<Rightarrow> jsnum" where
  "getUTCDate = utcField DateFromTime"

definition getUTCFullYear :: "jsdate \<Rightarrow> jsnum" where
  "getUTCFullYear = utcField YearFromTime"

text \<open>
  \<open>Date.UTC(year, month, date)\<close> and \<open>new Date(year, month, date)\<close>: a year from 0
  to 99 means 1900 plus that year; the second reads its fields in the system zone.
\<close>

definition fullYear :: "int \<Rightarrow> int" where
  "fullYear y = (if 0 \<le> y \<and> y \<le> 99 then 1900 + y else y)"

fun dateUTC :: "jsnum \<Rightarrow> jsnum \<Rightarrow> jsnum \<Rightarrow> jsnum" where
  "dateUTC (Num y) (Num m) (Num dt) = timeClip (Num (MakeDate (MakeDay (fullYear y) m dt) 0))"
| "dateUTC _ _ _ = NaN"

fun newDateYMD :: "runtime \<Rightarrow> jsnum \<Rightarrow> jsnum \<Rightarrow> jsnum \<Rightarrow> jsdate" where
  "newDateYMD rt (Num y) (Num m) (Num dt) =
     newDate (Num (UTC rt (MakeDate (MakeDay (fullYear y) m dt) 0)))"
| "newDateYMD rt _ _ _ = Date NaN"

fun setUTCDate :: "jsdate \<Rightarrow> jsnum \<Rightarrow> jsdate" where
  "setUTCDate (Date (Num t)) (Num dt) =
     newDate (Num (MakeDate (MakeDay (YearFromTime t) (MonthFromTime t) dt) (TimeWithinDay t)))"
| "setUTCDate _ _ = Date NaN"

section \<open>Strings\<close>

text \<open>\<open>Number.prototype.toString\<close> on the integers of this program, and \<open>padStart\<close>.\<close>

definition digitChar :: "nat \<Rightarrow> char" where
  "digitChar n = ''0123456789'' ! n"

fun digitsOf :: "nat \<Rightarrow> string" where
  "digitsOf n = (if n < 10 then [digitChar n] else digitsOf (n div 10) @ [digitChar (n mod 10)])"

declare digitsOf.simps [simp del]

fun numToString :: "jsnum \<Rightarrow> string" where
  "numToString NaN = ''NaN''"
| "numToString (Num k) = (if k < 0 then ''-'' @ digitsOf (nat (- k)) else digitsOf (nat k))"

definition padStart :: "nat \<Rightarrow> char \<Rightarrow> string \<Rightarrow> string" where
  "padStart n c s = replicate (n - length s) c @ s"

text \<open>An array read \<open>xs[i]\<close> is \<open>undefined\<close> (\<open>None\<close>) when \<open>i\<close> is no index of
  \<open>xs\<close>; a template literal writes \<open>undefined\<close> as that word.\<close>

fun arrayAt :: "'a list \<Rightarrow> jsnum \<Rightarrow> 'a option" where
  "arrayAt xs NaN = None"
| "arrayAt xs (Num i) = (if 0 \<le> i \<and> i < int (length xs) then Some (xs ! nat i) else None)"

fun strOf :: "string option \<Rightarrow> string" where
  "strOf None = ''undefined''"
| "strOf (Some s) = s"

section \<open>TimeController: formatting\<close>

text \<open>
  The two preferences \<open>formatTime\<close> reads through \<open>settingsManager.getSetting\<close>.
\<close>

record display_prefs =
  showSeconds :: bool
  use24HourFormat :: bool

record time_data =
  timeString :: string
  ampm :: string
  td_showSeconds :: bool
  td_use24Hour :: bool
  td_isNTPSynced :: bool
  lastSync :: "jsdate option"

text \<open>\<open>hours >= 12\<close> is false on \<open>NaN\<close>; \<open>%\<close> takes the sign of the dividend.\<close>

fun jsge :: "jsnum \<Rightarrow> int \<Rightarrow> bool" where
  "jsge NaN k = False"
| "jsge (Num a) k = (a \<ge> k)"

fun jsgt :: "jsnum \<Rightarrow> int \<Rightarrow> bool" where
  "jsgt NaN k = False"
| "jsgt (Num a) k = (a > k)"

fun jsrem :: "jsnum \<Rightarrow> int \<Rightarrow> jsnum" where
  "jsrem NaN k = NaN"
| "jsrem (Num a) k = (if k = 0 then NaN else if a < 0 then Num (- ((- a) mod \<bar>k\<bar>)) else Num (a mod \<bar>k\<bar>))"

definition formatTime :: "runtime \<Rightarrow> display_prefs \<Rightarrow> tc_state \<Rightarrow> jsdate \<Rightarrow> time_data" where
  "formatTime rt prefs s date =
     (let hours0 = getHours rt date;
          minutes = getMinutes rt date;
          seconds = getSeconds rt date;
          ampm1 = (if \<not> use24HourFormat prefs then (if jsge hours0 12 then ''PM'' else ''AM'') else []);
          hours1 = (if \<not> use24HourFormat prefs
                    then (let h = jsrem hours0 12 in if h = Num 0 then Num 12 else h)
                    else hours0);
          formattedHours = padStart 2 CHR ''0'' (numToString hours1);
          formattedMinutes = padStart 2 CHR ''0'' (numToString minutes);
          formattedSeconds = padStart 2 CHR ''0'' (numToString seconds);
          timeString0 = formattedHours @ '':'' @ formattedMinutes;
          timeString1 = (if showSeconds prefs then timeString0 @ '':'' @ formattedSeconds
                         else timeString0)
      in \<lparr> timeString = timeString1, ampm = ampm1, td_showSeconds = showSeconds prefs,
           td_use24Hour = use24HourFormat prefs, td_isNTPSynced = isNTPSynced s,
           lastSync = tc_lastSyncTime s \<rparr>)"

text \<open>
  \<open>getWeekNumber\<close>: the local calendar date as a UTC midnight, moved to the Thursday
  of its week, then \<open>Math.ceil((((d - yearStart) / 86400000) + 1) / 7)\<close>.
\<close>

definition getWeekNumber :: "runtime \<Rightarrow> jsdate \<Rightarrow> jsnum" where
  "getWeekNumber rt date =
     (let d0 = newDate (dateUTC (getFullYear rt date) (getMonth rt date) (getDate rt date));
          dayNum = jsor (getUTCDay d0) (Num 7);
          d = setUTCDate d0 (jssub (jsadd (getUTCDate d0) (Num 4)) dayNum);
          yearStart = newDate (dateUTC (getUTCFullYear d) (Num 0) (Num 1))
      in mathCeil (map_option (\<lambda>ms. ((ms / 86400000) + 1) / 7)
                     (toReal (jssub (getTime d) (getTime yearStart)))))"

definition dayNames :: "string list" where
  "dayNames = [''Sunday'', ''Monday'', ''Tuesday'', ''Wednesday'', ''Thursday'', ''Friday'',
               ''Saturday'']"

definition monthNames :: "string list" where
  "monthNames = [''January'', ''February'', ''March'', ''April'', ''May'', ''June'',
                 ''July'', ''August'', ''September'', ''October'', ''November'', ''December'']"

record date_data =
  dateString :: string
  dayName :: "string option"
  day :: jsnum
  monthName :: "string option"
  year :: jsnum
  weekNumber :: jsnum
  fullDate :: jsdate

definition formatDate :: "runtime \<Rightarrow> jsdate \<Rightarrow> date_data" where
  "formatDate rt date =
     (let dayName1 = arrayAt dayNames (getDay rt date);
          day1 = getDate rt date;
          monthName1 = arrayAt monthNames (getMonth rt date);
          year1 = getFullYear rt date;
          weekNumber1 = getWeekNumber rt date;
          dateString1 = strOf dayName1 @ '', '' @ numToString day1 @ '' '' @ strOf monthName1
                        @ '', '' @ numToString year1 @ '', week '' @ numToString weekNumber1
      in \<lparr> dateString = dateString1, dayName = dayName1, day = day1, monthName = monthName1,
           year = year1, weekNumber = weekNumber1, fullDate = date \<rparr>)"

section \<open>WorldClockManager\<close>

text \<open>
  The wall clock of a named zone at a UTC instant, as \<open>Intl.DateTimeFormat\<close> and
  \<open>toLocaleString\<close> with a \<open>timeZone\<close> option read it. The constructor throws a
  \<open>RangeError\<close> for an identifier the runtime does not know; formatting an invalid
  date throws one too.
\<close>

text \<open>
  The formatter writes a year as the year of its era, without the era: 1 for 1 BC
  (the year 0 of the \<open>Date\<close> calendar), 2 for 2 BC.
\<close>

definition eraYear :: "int \<Rightarrow> int" where
  "eraYear y = (if y \<ge> 1 then y else 1 - y)"

definition zoneWallClock :: "runtime \<Rightarrow> string \<Rightarrow> int \<Rightarrow> int" where
  "zoneWallClock rt tz t = t + zoneOffset rt tz t"

definition intlWallClock :: "runtime \<Rightarrow> string \<Rightarrow> jsdate \<Rightarrow> jserror + int" where
  "intlWallClock rt tz date =
     (if \<not> zoneSupported rt tz then Inl (RangeError (zoneErrorText rt tz))
      else case getTime date of
             NaN \<Rightarrow> Inl (RangeError (timeErrorText rt))
           | Num t \<Rightarrow> Inr (zoneWallClock rt tz t))"

text \<open>
  The object a world clock keeps in \<open>timeData\<close>. Its numeric fields hold the string
  \<open>'--'\<close> in the error state, so they are \<open>jsval\<close>; a field the object literal does not
  write is \<open>None\<close>.
\<close>

record wc_date =
  wc_dayName :: jsval
  wc_day :: jsval
  wc_monthName :: jsval
  wc_year :: jsval
  wc_weekNumber :: jsval

record wc_time =
  hours :: jsval
  hours12 :: "jsval option"
  minutes :: jsval
  seconds :: jsval
  wc_ampm :: string
  wc_timezone :: "string option"
  isError :: bool
  isFallback :: "bool option"
  errorMessage :: "string option"
  td_date :: "wc_date option"

text \<open>The conversion to a 12-hour clock that \<open>getTimeForTimezone\<close> and its fallback share.\<close>

definition to12Hour :: "jsnum \<Rightarrow> jsnum \<times> string" where
  "to12Hour hours24 =
     (if hours24 = Num 0 then (Num 12, ''AM'')
      else if jsgt hours24 12 then (jssub hours24 (Num 12), ''PM'')
      else if hours24 = Num 12 then (hours24, ''PM'')
      else (hours24, ''AM''))"

definition timezoneOffsets :: "(string \<times> rat) list" where
  "timezoneOffsets =
     [(''America/New_York'', -5), (''America/Los_Angeles'', -8), (''America/Chicago'', -6),
      (''America/Denver'', -7), (''Europe/London'', 0), (''Europe/Paris'', 1),
      (''Europe/Berlin'', 1), (''Europe/Rome'', 1), (''Europe/Madrid'', 1),
      (''Asia/Tokyo'', 9), (''Asia/Shanghai'', 8), (''Asia/Hong_Kong'', 8),
      (''Asia/Singapore'', 8), (''Asia/Dubai'', 4), (''Asia/Kolkata'', 11 / 2),
      (''Australia/Sydney'', 11), (''Australia/Melbourne'', 11), (''Pacific/Auckland'', 13),
      (''America/Sao_Paulo'', -3), (''America/Mexico_City'', -6)]"

text \<open>
  \<open>timezoneOffsets[timezone] || 0\<close>. The table is an object literal, so a key it
  inherits from \<open>Object.prototype\<close> reads as a function or an object; that value is
  truthy and multiplies to \<open>NaN\<close>.
\<close>

definition objectPrototypeKeys :: "string list" where
  "objectPrototypeKeys =
     [''constructor'', ''hasOwnProperty'', ''isPrototypeOf'', ''propertyIsEnumerable'',
      ''toLocaleString'', ''toString'', ''valueOf'', ''__proto__'', ''__defineGetter__'',
      ''__defineSetter__'', ''__lookupGetter__'', ''__lookupSetter__'']"

definition fallbackOffset :: "string \<Rightarrow> rat option" where
  "fallbackOffset tz =
     (case map_of timezoneOffsets tz of
        Some v \<Rightarrow> Some (if v = 0 then 0 else v)
      | None \<Rightarrow> if tz \<in> set objectPrototypeKeys then None else Some 0)"

text \<open>
  \<open>date.getTimezoneOffset()\<close>: \<open>(t - LocalTime(t)) / msPerMinute\<close>, a whole
  number when the system offset is a whole number of minutes; the quotient is kept
  exact here.
\<close>

definition getTimezoneOffset :: "runtime \<Rightarrow> jsdate \<Rightarrow> rat option" where
  "getTimezoneOffset rt d =
     (case getTime d of NaN \<Rightarrow> None | Num t \<Rightarrow> Some (of_int (t - LocalTime rt t) / 60000))"

fun realAdd :: "rat option \<Rightarrow> rat option \<Rightarrow> rat option" where
  "realAdd (Some a) (Some b) = Some (a + b)"
| "realAdd _ _ = None"

fun realMul :: "rat option \<Rightarrow> rat \<Rightarrow> rat option" where
  "realMul (Some a) b = Some (a * b)"
| "realMul None b = None"

text \<open>
  \<open>getFallbackTimeForTimezone\<close>. With a \<open>Date\<close> argument no statement of its
  \<open>try\<close> block throws, so its \<open>catch\<close> (the local time with \<open>isError: true\<close>) is
  not entered.
\<close>

definition getFallbackTimeForTimezone :: "runtime \<Rightarrow> jsdate \<Rightarrow> string \<Rightarrow> wc_time" where
  "getFallbackTimeForTimezone rt date tz =
     (let utcTime = realAdd (toReal (getTime date)) (realMul (getTimezoneOffset rt date) 60000);
          offset = fallbackOffset tz;
          timezoneTime = newDateReal (realAdd utcTime (realMul offset 3600000));
          hours24 = getUTCHours timezoneTime;
          minutes1 = getUTCMinutes timezoneTime;
          seconds1 = getUTCSeconds timezoneTime;
          (h12, ap) = to12Hour hours24
      in \<lparr> hours = VNum hours24, hours12 = Some (VNum h12), minutes = VNum minutes1,
           seconds = VNum seconds1, wc_ampm = ap, wc_timezone = Some tz, isError = False,
           isFallback = Some True, errorMessage = None, td_date = None \<rparr>)"

text \<open>
  \<open>getTimeForTimezone\<close>: the \<open>Intl\<close> path, and the fallback when it throws.
\<close>

definition intlHour :: "runtime \<Rightarrow> int \<Rightarrow> int" where
  "intlHour rt w = (if midnightAs24 rt \<and> HourFromTime w = 0 then 24 else HourFromTime w)"

definition getTimeForTimezone :: "runtime \<Rightarrow> jsdate \<Rightarrow> string \<Rightarrow> wc_time" where
  "getTimeForTimezone rt date tz =
     (case intlWallClock rt tz date of
        Inr w \<Rightarrow>
          (let hours24 = Num (intlHour rt w);
               minutes1 = Num (MinFromTime w);
               seconds1 = Num (SecFromTime w);
               (h12, ap) = to12Hour hours24
           in \<lparr> hours = VNum hours24, hours12 = Some (VNum h12), minutes = VNum minutes1,
                seconds = VNum seconds1, wc_ampm = ap, wc_timezone = Some tz, isError = False,
                isFallback = None, errorMessage = None, td_date = None \<rparr>)
      | Inl err \<Rightarrow> getFallbackTimeForTimezone rt date tz)"

text \<open>
  \<open>getWeekNumberForTimezone\<close>. \<open>date.toLocaleString("en-US", {timeZone})\<close> gives
  \<open>"Invalid Date"\<close> for an invalid date, before it looks at the zone; for a valid
  date it throws on a zone the runtime does not know, and otherwise writes the zone's
  wall clock to the second, the year as the formatter writes it. \<open>new Date\<close> reads
  that text back as a time of the system zone, \<open>"Invalid Date"\<close> as an invalid date.
  Any exception gives week 1.
\<close>

definition localeStringDate :: "runtime \<Rightarrow> jsdate \<Rightarrow> string \<Rightarrow> jserror + jsdate" where
  "localeStringDate rt date tz =
     (case getTime date of
        NaN \<Rightarrow> Inr (Date NaN)
      | Num t \<Rightarrow>
          if \<not> zoneSupported rt tz then Inl (RangeError (zoneErrorText rt tz))
          else
            let w = zoneWallClock rt tz t;
                ws = w - w mod 1000;
                yr = readBackYear rt (eraYear (YearFromTime ws))
            in Inr (newDate (Num (UTC rt (MakeDate (MakeDay yr (MonthFromTime ws) (DateFromTime ws))
                                             (TimeWithinDay ws))))))"

definition getWeekNumberForTimezone :: "runtime \<Rightarrow> jsdate \<Rightarrow> string \<Rightarrow> jsnum" where
  "getWeekNumberForTimezone rt date tz =
     (case localeStringDate rt date tz of
        Inl err \<Rightarrow> Num 1
      | Inr tzDate \<Rightarrow>
          (let startOfYear = newDateYMD rt (getFullYear rt tzDate) (Num 0) (Num 1);
               pastDaysOfYear = map_option (\<lambda>ms. ms / 86400000)
                                  (toReal (jssub (getTime tzDate) (getTime startOfYear)))
           in mathCeil (map_option (\<lambda>x. x / 7)
                (realAdd (realAdd pastDaysOfYear (toReal (getDay rt startOfYear))) (Some 1)))))"

text \<open>\<open>formatDateForTimezone\<close> rethrows what the formatter throws.\<close>

definition formatDateForTimezone :: "runtime \<Rightarrow> jsdate \<Rightarrow> string \<Rightarrow> jserror + wc_date" where
  "formatDateForTimezone rt date tz =
     (case intlWallClock rt tz date of
        Inl err \<Rightarrow> Inl err
      | Inr w \<Rightarrow>
          Inr \<lparr> wc_dayName = VStr (dayNames ! nat (WeekDay w)),
                wc_day = VNum (Num (DateFromTime w)),
                wc_monthName = VStr (monthNames ! nat (MonthFromTime w)),
                wc_year = VNum (Num (eraYear (YearFromTime w))),
                wc_weekNumber = VNum (getWeekNumberForTimezone rt date tz) \<rparr>)"

record world_clock =
  wc_id :: string
  cityName :: string
  timezone :: string
  isEnabled :: bool
  timeData :: "wc_time option"

definition errorTimeData :: wc_time where
  "errorTimeData =
     \<lparr> hours = VStr ''--'', hours12 = None, minutes = VStr ''--'', seconds = VStr ''--'',
       wc_ampm = [], wc_timezone = None, isError = True, isFallback = None,
       errorMessage = None,
       td_date = Some \<lparr> wc_dayName = VStr ''--'', wc_day = VStr ''--'', wc_monthName = VStr ''--'',
                     wc_year = VStr ''--'', wc_weekNumber = VStr ''--'' \<rparr> \<rparr>"

text \<open>\<open>updateWorldClockTime\<close>, with \<open>now\<close> the \<open>Date\<close> that \<open>new Date()\<close> gives.\<close>

definition updateWorldClockTime :: "runtime \<Rightarrow> jsdate \<Rightarrow> world_clock \<Rightarrow> world_clock" where
  "updateWorldClockTime rt now worldClock =
     (let timeData1 = getTimeForTimezone rt now (timezone worldClock)
      in case formatDateForTimezone rt now (timezone worldClock) of
           Inr dateData \<Rightarrow> worldClock\<lparr>timeData := Some (timeData1\<lparr>td_date := Some dateData\<rparr>)\<rparr>
         | Inl err \<Rightarrow> worldClock\<lparr>timeData := Some errorTimeData\<rparr>)"

text \<open>
  \<open>addWorldClock\<close>. From outside come the identifier that \<open>generateWorldClockId\<close>
  draws, the name \<open>getCityNameForTimezone\<close> finds, and what
  \<open>settingsManager.addWorldClock\<close> does: return \<open>true\<close>, return \<open>false\<close>, or throw.
  The result is the returned value (\<open>None\<close> for \<open>false\<close>) and the new list.
\<close>

datatype settings_outcome = Saved | Rejected | Threw

definition isValidTimezone :: "runtime \<Rightarrow> string \<Rightarrow> bool" where
  "isValidTimezone rt tz = zoneSupported rt tz"

definition addWorldClock ::
  "runtime \<Rightarrow> jsdate \<Rightarrow> string \<Rightarrow> (string \<Rightarrow> string) \<Rightarrow> settings_outcome \<Rightarrow>
   string \<Rightarrow> string option \<Rightarrow> world_clock list \<Rightarrow> world_clock option \<times> world_clock list" where
  "addWorldClock rt now newId getCityNameForTimezone settings tz cityName0 worldClocks =
     (if length worldClocks \<ge> 3 then (None, worldClocks)
      else if list_ex (\<lambda>wc. timezone wc = tz) worldClocks then (None, worldClocks)
      else if \<not> isValidTimezone rt tz then (None, worldClocks)
      else
        let worldClockConfig =
              \<lparr> wc_id = newId,
                cityName = (case cityName0 of
                              None \<Rightarrow> getCityNameForTimezone tz
                            | Some c \<Rightarrow> if c = [] then getCityNameForTimezone tz else c),
                timezone = tz, isEnabled = True, timeData = None \<rparr>;
            pushed = worldClocks @ [worldClockConfig]
        in case settings of
             Saved \<Rightarrow>
               (let updated = updateWorldClockTime rt now worldClockConfig
                in (Some updated, worldClocks @ [updated]))
           | Rejected \<Rightarrow> (None, filter (\<lambda>wc. wc_id wc \<noteq> newId) pushed)
           | Threw \<Rightarrow> (None, pushed))"

text \<open>
  \<open>removeWorldClock\<close>: the list is filtered before \<open>settingsManager.removeWorldClock\<close>
  is called, so it stays filtered whatever that call does.
\<close>

definition removeWorldClock ::
  "settings_outcome \<Rightarrow> string \<Rightarrow> world_clock list \<Rightarrow> bool \<times> world_clock list" where
  "removeWorldClock settings ident worldClocks =
     (let initialLength = length worldClocks;
          worldClocks1 = filter (\<lambda>wc. wc_id wc \<noteq> ident) worldClocks
      in (settings = Saved \<and> length worldClocks1 < initialLength, worldClocks1))"

datatype wc_op =
    AddWorldClock jsdate string "string \<Rightarrow> string" settings_outcome string "string option"
  | RemoveWorldClock settings_outcome string

fun wc_step :: "runtime \<Rightarrow> wc_op \<Rightarrow> world_clock list \<Rightarrow> world_clock list" where
  "wc_step rt (AddWorldClock now newId nameOf settings tz city) ws =
     snd (addWorldClock rt now newId nameOf settings tz city ws)"
| "wc_step rt (RemoveWorldClock settings ident) ws = snd (removeWorldClock settings ident ws)"

fun wc_run :: "runtime \<Rightarrow> wc_op list \<Rightarrow> world_clock list \<Rightarrow> world_clock list" where
  "wc_run rt [] ws = ws"
| "wc_run rt (x # xs) ws = wc_run rt xs (wc_step rt x ws)"

section \<open>Example inputs\<close>

text \<open>
  A runtime whose system zone is UTC and whose time zone database knows the zone
  \<open>UTC\<close> and nothing else, with example values for what the engine decides (the
  messages, the reading of a year of one or two digits); and an \<open>NTPService\<close> that
  has synchronised once.
\<close>

definition utcRuntime :: runtime where
  "utcRuntime = \<lparr> localTZA = (\<lambda>t isUTC. 0), zoneSupported = (\<lambda>tz. tz = ''UTC''),
                   zoneOffset = (\<lambda>tz t. 0), midnightAs24 = False,
                   zoneErrorText = (\<lambda>tz. ''Invalid time zone specified: '' @ tz),
                   timeErrorText = ''Invalid time value'',
                   readBackYear = (\<lambda>y. if y < 50 then 2000 + y
                                       else if y < 100 then 1900 + y else y) \<rparr>"

definition syncedService :: ntp_state where
  "syncedService = \<lparr> timeOffset = Num 3000, lastSyncTime = Some (Date (Num 1760443200000)),
                     syncInterval = 900000, syncTimer = True, isOnlineMode = True \<rparr>"

text \<open>
  What holds of an \<open>NTPService\<close> from construction on: while no sync has succeeded,
  the stored offset is zero.
\<close>

definition never_synced_zero :: "ntp_state \<Rightarrow> bool" where
  "never_synced_zero s = (lastSyncTime s = None \<longrightarrow> timeOffset s = Num 0)"

section \<open>The formatting rules as the specification words them\<close>

text \<open>
  Two digits with a leading zero; the displayed hour (\<open>hour mod 12\<close>, with 0 shown as
  12, or the raw 24-hour value); the meridiem; and the time string with the seconds
  segment only when asked for.
\<close>

definition twoDigits :: "int \<Rightarrow> string" where
  "twoDigits n = [digitChar (nat (n div 10)), digitChar (nat (n mod 10))]"

definition spec_displayHour :: "bool \<Rightarrow> int \<Rightarrow> int" where
  "spec_displayHour use24Hour h =
     (if use24Hour then h else if h mod 12 = 0 then 12 else h mod 12)"

definition spec_meridiem :: "bool \<Rightarrow> int \<Rightarrow> string" where
  "spec_meridiem use24Hour h =
     (if use24Hour then [] else if 0 \<le> h \<and> h \<le> 11 then ''AM'' else ''PM'')"

definition spec_timeString :: "bool \<Rightarrow> bool \<Rightarrow> int \<Rightarrow> int \<Rightarrow> int \<Rightarrow> string" where
  "spec_timeString use24Hour showSec h m s =
     twoDigits (spec_displayHour use24Hour h) @ '':'' @ twoDigits m
       @ (if showSec then '':'' @ twoDigits s else [])"

text \<open>
  The body of \<open>getWeekNumber\<close> after it has read the three local calendar fields.
\<close>

definition weekOfFields :: "jsnum \<Rightarrow> jsnum \<Rightarrow> jsnum \<Rightarrow> jsnum" where
  "weekOfFields y m dt =
     (let d0 = newDate (dateUTC y m dt);
          dayNum = jsor (getUTCDay d0) (Num 7);
          d = setUTCDate d0 (jssub (jsadd (getUTCDate d0) (Num 4)) dayNum);
          yearStart = newDate (dateUTC (getUTCFullYear d) (Num 0) (Num 1))
      in mathCeil (map_option (\<lambda>ms. ((ms / 86400000) + 1) / 7)
                     (toReal (jssub (getTime d) (getTime yearStart)))))"

text \<open>The invariant of the world-clock list: at most three clocks, no zone twice.\<close>

definition wc_ok :: "world_clock list \<Rightarrow> bool" where
  "wc_ok ws = (length ws \<le> 3 \<and> distinct (map timezone ws))"

text \<open>A world clock for the zone \<open>UTC\<close>, as \<open>addWorldClock\<close> builds it.\<close>

definition utcClock :: world_clock where
  "utcClock = \<lparr> wc_id = ''wc_1760443200000_k3j9x0q2a'', cityName = ''UTC'', timezone = ''UTC'',
                isEnabled = True, timeData = None \<rparr>"

text \<open>
  The instant whose UTC fields the fallback of \<open>getTimeForTimezone\<close> shows for a
  valid date \<open>t\<close> and an offset of \<open>off\<close> hours: \<open>t\<close> plus
  \<open>getTimezoneOffset()\<close> minutes, plus the offset.
\<close>

definition fallbackClock :: "runtime \<Rightarrow> int \<Rightarrow> rat \<Rightarrow> int" where
  "fallbackClock rt t off = jsTrunc (of_int (t - localTZA rt t True) + off * 3600000)"

section \<open>Doubles\<close>

lemma ulpOf_small: "m < 9007199254740992 \<Longrightarrow> ulpOf m = 1"
  by (subst ulpOf.simps) simp

lemma ulpOf_large: "9007199254740992 \<le> m \<Longrightarrow> ulpOf m = 2 * ulpOf (m div 2)"
  by (subst ulpOf.simps) simp

lemma roundToDouble_small:
  assumes "\<bar>x\<bar> < 9007199254740992"
  shows "roundToDouble x = x"
proof -
  from assms have "nat \<bar>x\<bar> < 9007199254740992" by simp
  then have "ulpOf (nat \<bar>x\<bar>) = 1" by (rule ulpOf_small)
  then have "roundToDouble x = sgn x * \<bar>x\<bar>"
    by (simp add: roundToDouble_def Let_def)
  then show ?thesis by (simp add: mult_sgn_abs)
qed

lemma ulpOf_pow53: "ulpOf 9007199254740992 = 2"
proof -
  have "ulpOf 9007199254740992 = 2 * ulpOf (9007199254740992 div 2)"
    by (rule ulpOf_large) simp
  also have "ulpOf (9007199254740992 div 2) = 1"
    by (rule ulpOf_small) simp
  finally show ?thesis by simp
qed

lemma roundToDouble_exact:
  assumes "\<bar>x\<bar> \<le> 9007199254740992"
  shows "roundToDouble x = x"
proof (cases "\<bar>x\<bar> < 9007199254740992")
  case True
  then show ?thesis by (rule roundToDouble_small)
next
  case False
  with assms have "x = 9007199254740992 \<or> x = - 9007199254740992" by linarith
  then show ?thesis
    by (auto simp: roundToDouble_def Let_def ulpOf_pow53)
qed

lemma ulpOf_bound: "9007199254740992 \<le> m \<Longrightarrow> ulpOf m * 4503599627370496 \<le> m"
proof (induction m rule: ulpOf.induct)
  case (1 m)
  have u: "ulpOf m = 2 * ulpOf (m div 2)" using "1.prems" by (rule ulpOf_large)
  show ?case
  proof (cases "m div 2 < 9007199254740992")
    case True
    then have "ulpOf (m div 2) = 1" by (rule ulpOf_small)
    with u "1.prems" show ?thesis by simp
  next
    case False
    then have "ulpOf (m div 2) * 4503599627370496 \<le> m div 2"
      using "1.IH" "1.prems" by simp
    then have "2 * (ulpOf (m div 2) * 4503599627370496) \<le> 2 * (m div 2)" by simp
    also have "2 * (m div 2) \<le> m" by simp
    finally show ?thesis using u by (simp add: mult.assoc)
  qed
qed

lemma ulpOf_pos: "0 < ulpOf m"
proof (induction m rule: ulpOf.induct)
  case (1 m)
  show ?case
  proof (cases "m < 9007199254740992")
    case True
    then show ?thesis by (simp add: ulpOf_small)
  next
    case False
    then have "0 < ulpOf (m div 2)" by (rule "1.IH")
    moreover have "ulpOf m = 2 * ulpOf (m div 2)" using False by (simp add: ulpOf_large)
    ultimately show ?thesis by simp
  qed
qed

lemma roundToDouble_large:
  assumes "9007199254740992 \<le> \<bar>x\<bar>"
  shows "9007199254740992 \<le> \<bar>roundToDouble x\<bar>"
proof -
  define m where "m = nat \<bar>x\<bar>"
  define u where "u = ulpOf m"
  define q where "q = m div u"
  define k where "k = (if 2 * (m mod u) > u \<or> (2 * (m mod u) = u \<and> odd q) then q + 1 else q)"
  have m: "9007199254740992 \<le> m" using assms by (simp add: m_def)
  have u2: "2 \<le> u"
    using ulpOf_large [OF m] ulpOf_pos [of "m div 2"] by (simp add: u_def)
  have "u * 4503599627370496 \<le> m" unfolding u_def using m by (rule ulpOf_bound)
  then have "(u * 4503599627370496) div u \<le> m div u" by (rule div_le_mono)
  then have q: "4503599627370496 \<le> q" using u2 by (simp add: q_def)
  have "q \<le> k" by (simp add: k_def)
  with q have "4503599627370496 \<le> k" by simp
  then have "4503599627370496 * 2 \<le> k * u" using u2 by (rule mult_le_mono)
  then have ku: "9007199254740992 \<le> k * u" by simp
  have x0: "x \<noteq> 0" using assms by auto
  have "roundToDouble x = sgn x * int (k * u)"
    by (simp add: roundToDouble_def Let_def m_def u_def q_def k_def)
  then have "\<bar>roundToDouble x\<bar> = int (k * u)"
    using x0 by (simp add: abs_mult abs_sgn_eq)
  with ku show ?thesis by linarith
qed

text \<open>
  A sum or difference that \<open>new Date\<close> clips may be computed exactly: rounding it to
  a double first gives the same date.
\<close>

lemma timeClip_roundToDouble: "timeClip (Num (roundToDouble x)) = timeClip (Num x)"
proof (cases "\<bar>x\<bar> < 9007199254740992")
  case True
  then show ?thesis by (simp add: roundToDouble_small)
next
  case False
  then have big: "9007199254740992 \<le> \<bar>x\<bar>" by simp
  then have "9007199254740992 \<le> \<bar>roundToDouble x\<bar>" by (rule roundToDouble_large)
  with big show ?thesis by (simp add: maxTime_def)
qed

section \<open>Offset calculation\<close>

text \<open>
  C4, as the code has it. Two \<open>Date\<close> objects with valid time values give
  \<open>remote - local\<close> in milliseconds as the subtraction of doubles gives it: exactly
  \<open>remote - local\<close> when the two are at most \<open>2^53\<close> milliseconds apart, and the
  nearest double otherwise. An argument that is not a \<open>Date\<close> object makes
  \<open>calculateOffset\<close> throw its error. A \<open>Date\<close> object that holds \<open>NaN\<close> passes the
  \<open>instanceof\<close> guard: the call returns \<open>NaN\<close> and throws nothing.
\<close>

theorem calculateOffset_cases:
  "(\<bar>r\<bar> \<le> maxTime \<and> \<bar>l\<bar> \<le> maxTime \<and> \<bar>r - l\<bar> \<le> 9007199254740992 \<longrightarrow>
      calculateOffset (VDate (Date (Num r))) (VDate (Date (Num l))) = Inr (Num (r - l)))
   \<and> (\<bar>r\<bar> \<le> maxTime \<and> \<bar>l\<bar> \<le> maxTime \<longrightarrow>
        calculateOffset (VDate (Date (Num r))) (VDate (Date (Num l)))
          = Inr (Num (roundToDouble (r - l))))
   \<and> (\<not> instanceofDate a \<or> \<not> instanceofDate b \<longrightarrow>
        calculateOffset a b = Inl (Error ''Invalid date objects provided for offset calculation''))
   \<and> calculateOffset (VDate (Date NaN)) (VDate d) = Inr NaN
   \<and> calculateOffset (VDate d) (VDate (Date NaN)) = Inr NaN"
proof -
  have exact: "calculateOffset (VDate (Date (Num r))) (VDate (Date (Num l))) = Inr (Num (r - l))"
    if "\<bar>r - l\<bar> \<le> 9007199254740992"
    using roundToDouble_exact [OF that] by simp
  have guard: "calculateOffset a b = Inl (Error ''Invalid date objects provided for offset calculation'')"
    if "\<not> instanceofDate a \<or> \<not> instanceofDate b"
    using that by (cases a; cases b) auto
  have right: "calculateOffset (VDate d) (VDate (Date NaN)) = Inr NaN"
  proof (cases d)
    case (Date v)
    then show ?thesis by (cases v) simp_all
  qed
  show ?thesis using exact guard right by simp
qed

theorem calculateOffset_cases_witness:
  "\<bar>1760443205000\<bar> \<le> maxTime \<and> \<bar>1760443200000\<bar> \<le> maxTime
   \<and> \<bar>1760443205000 - 1760443200000 :: int\<bar> \<le> 9007199254740992
   \<and> calculateOffset (VDate (Date (Num 1760443205000))) (VDate (Date (Num 1760443200000)))
       = Inr (Num 5000)
   \<and> \<bar>8640000000000000\<bar> \<le> maxTime \<and> \<bar>- 8639999999999999\<bar> \<le> maxTime
   \<and> calculateOffset (VDate (Date (Num 8640000000000000)))
        (VDate (Date (Num (- 8639999999999999)))) = Inr (Num 17280000000000000)
   \<and> \<not> instanceofDate (VStr ''invalid'')
   \<and> calculateOffset (VStr ''invalid'') (VDate (Date (Num 1760443200000)))
       = Inl (Error ''Invalid date objects provided for offset calculation'')"
proof -
  have "ulpOf 17279999999999999 = 2 * ulpOf (17279999999999999 div 2)"
    by (rule ulpOf_large) simp
  moreover have "ulpOf (17279999999999999 div 2) = 1"
    by (rule ulpOf_small) simp
  ultimately have ulp: "ulpOf 17279999999999999 = 2" by simp
  have far: "roundToDouble 17279999999999999 = 17280000000000000"
    by (simp add: roundToDouble_def Let_def ulp)
  show ?thesis
    using calculateOffset_cases [where r = 1760443205000 and l = 1760443200000
            and a = "VStr ''invalid''" and b = "VDate (Date (Num 1760443200000))"]
          calculateOffset_cases [where r = 8640000000000000 and l = "- 8639999999999999"
            and a = "VStr ''invalid''" and b = "VDate (Date (Num 1760443200000))"]
          far
    by (simp add: maxTime_def)
qed

text \<open>
  An invalid \<open>Date\<close> as the remote time: the call returns a value, \<open>NaN\<close>, where an
  error was promised.
\<close>

theorem calculateOffset_nan_date_counterexample:
  "calculateOffset (VDate (Date NaN)) (VDate (Date (Num 1760443200000))) = Inr NaN
   \<and> \<not> isl (calculateOffset (VDate (Date NaN)) (VDate (Date (Num 1760443200000))))"
  by simp

section \<open>A failed synchronisation\<close>

lemma handleSyncFailure_offset:
  "lastSyncTime s \<noteq> None \<Longrightarrow> timeOffset (handleSyncFailure s) = timeOffset s"
  by (auto simp: handleSyncFailure_def Let_def)

lemma handleSyncFailure_lastSync:
  "lastSyncTime (handleSyncFailure s) = lastSyncTime s"
  by (simp add: handleSyncFailure_def Let_def)

lemma syncCatch_offset:
  "lastSyncTime s \<noteq> None \<Longrightarrow> timeOffset (snd (syncCatch s)) = timeOffset s"
  by (simp add: syncCatch_def handleSyncFailure_offset)

lemma syncCatch_lastSync:
  "lastSyncTime (snd (syncCatch s)) = lastSyncTime s"
  by (simp add: syncCatch_def handleSyncFailure_lastSync)

lemma syncCatch_never_synced:
  "lastSyncTime s = None \<Longrightarrow> isOnlineMode s \<Longrightarrow> timeOffset (snd (syncCatch s)) = Num 0"
  by (simp add: syncCatch_def handleSyncFailure_def Let_def)

text \<open>
  C1, as the code has it. In \<open>NTPService\<close>, a \<open>performSync\<close> whose fetch fails, in a
  state where a sync has succeeded before, returns \<open>false\<close> and leaves the stored offset
  and \<open>lastSyncTime\<close> as they were; in the never-synced state with \<open>isOnlineMode\<close> set
  the offset is zero afterwards; a call skipped because the browser is offline changes
  nothing. In \<open>TimeController\<close>, a failed \<open>syncWithNTP\<close> goes through
  \<open>handleOfflineMode\<close>: whatever the state, it clears \<open>isNTPSynced\<close>, sets the
  controller's offset to zero and rethrows the error.
\<close>

theorem sync_failure_offset:
  "(lastSyncTime s \<noteq> None \<longrightarrow>
      timeOffset (snd (performSync True (Inl err) t0 t1 t2 s)) = timeOffset s
      \<and> lastSyncTime (snd (performSync True (Inl err) t0 t1 t2 s)) = lastSyncTime s)
   \<and> (lastSyncTime s = None \<and> isOnlineMode s \<longrightarrow>
        timeOffset (snd (performSync True (Inl err) t0 t1 t2 s)) = Num 0)
   \<and> fst (performSync True (Inl err) t0 t1 t2 s) = False
   \<and> performSync False fetched t0 t1 t2 s = (False, s)
   \<and> syncWithNTP (Inl err) tloc t3 c
       = (Inl err, c\<lparr>isNTPSynced := False, tc_timeOffset := Num 0\<rparr>)"
proof (intro conjI impI)
  assume "lastSyncTime s \<noteq> None"
  then show "timeOffset (snd (performSync True (Inl err) t0 t1 t2 s)) = timeOffset s"
    by (simp add: performSync_def syncCatch_offset)
next
  show "lastSyncTime (snd (performSync True (Inl err) t0 t1 t2 s)) = lastSyncTime s"
    by (simp add: performSync_def syncCatch_lastSync)
next
  assume "lastSyncTime s = None \<and> isOnlineMode s"
  then show "timeOffset (snd (performSync True (Inl err) t0 t1 t2 s)) = Num 0"
    by (simp add: performSync_def syncCatch_never_synced)
next
  show "fst (performSync True (Inl err) t0 t1 t2 s) = False"
    by (simp add: performSync_def syncCatch_def)
next
  show "performSync False fetched t0 t1 t2 s = (False, s)"
    by (simp add: performSync_def)
next
  show "syncWithNTP (Inl err) tloc t3 c
          = (Inl err, c\<lparr>isNTPSynced := False, tc_timeOffset := Num 0\<rparr>)"
    by (simp add: syncWithNTP_def handleOfflineMode_def)
qed

theorem sync_failure_offset_witness:
  "lastSyncTime syncedService \<noteq> None
   \<and> timeOffset (snd (performSync True (Inl (Error ''Request timeout''))
                        1760444100000 1760444105000 1760444105000 syncedService)) = Num 3000
   \<and> lastSyncTime ntp_init = None \<and> isOnlineMode ntp_init
   \<and> timeOffset (snd (performSync True (Inl (Error ''Request timeout''))
                        1760444100000 1760444105000 1760444105000 ntp_init)) = Num 0"
  using sync_failure_offset [of syncedService "Error ''Request timeout''"
          1760444100000 1760444105000 1760444105000 "Inl (Error ''Request timeout'')" 0 0 tc_init]
        sync_failure_offset [of ntp_init "Error ''Request timeout''"
          1760444100000 1760444105000 1760444105000 "Inl (Error ''Request timeout'')" 0 0 tc_init]
  by (simp add: syncedService_def ntp_init_def)

text \<open>
  A \<open>TimeController\<close> that has synchronised with an offset of five seconds loses that
  offset at the next failed \<open>syncWithNTP\<close>.
\<close>

theorem syncWithNTP_failure_counterexample:
  "tc_lastSyncTime (snd (syncWithNTP (Inr (Date (Num 1760443205000)))
                           1760443200000 1760443200001 tc_init)) \<noteq> None
   \<and> tc_timeOffset (snd (syncWithNTP (Inr (Date (Num 1760443205000)))
                            1760443200000 1760443200001 tc_init)) = Num 5000
   \<and> tc_timeOffset (snd (syncWithNTP (Inl (Error ''Request timeout''))
                            1760444100000 1760444100000
                            (snd (syncWithNTP (Inr (Date (Num 1760443205000)))
                                    1760443200000 1760443200001 tc_init)))) = Num 0"
  by (simp add: syncWithNTP_def handleOfflineMode_def tc_init_def roundToDouble_small)

section \<open>The current time of the service\<close>

lemma never_synced_zero_init: "never_synced_zero ntp_init"
  by (simp add: never_synced_zero_def ntp_init_def)

lemma never_synced_zero_timer:
  "never_synced_zero s \<Longrightarrow> never_synced_zero (stopPeriodicSync s)"
  "never_synced_zero s \<Longrightarrow> never_synced_zero (startPeriodicSync m s)"
  by (simp_all add: never_synced_zero_def stopPeriodicSync_def startPeriodicSync_def)

lemma never_synced_zero_interval:
  "never_synced_zero s \<Longrightarrow> setSyncInterval m s = Inr s' \<Longrightarrow> never_synced_zero s'"
  by (auto simp: never_synced_zero_def setSyncInterval_def stopPeriodicSync_def
        startPeriodicSync_def Let_def split: if_splits)

lemma never_synced_zero_catch:
  "never_synced_zero s \<Longrightarrow> never_synced_zero (snd (syncCatch s))"
  by (auto simp: never_synced_zero_def syncCatch_def handleSyncFailure_def Let_def)

lemma never_synced_zero_sync:
  "never_synced_zero s \<Longrightarrow> never_synced_zero (snd (performSync nav fetched t0 t1 t2 s))"
  by (auto simp: performSync_def Let_def never_synced_zero_catch
        split: sum.splits) (simp_all add: never_synced_zero_def)

lemma never_synced_zero_step:
  "never_synced_zero s \<Longrightarrow> never_synced_zero (ntp_step e s)"
proof (cases e)
  case OnlineEvent
  assume "never_synced_zero s"
  then have "never_synced_zero (s\<lparr>isOnlineMode := True\<rparr>)"
    by (simp add: never_synced_zero_def)
  then show ?thesis using OnlineEvent by (simp add: never_synced_zero_timer)
next
  case OfflineEvent
  assume "never_synced_zero s"
  then have "never_synced_zero (s\<lparr>isOnlineMode := False\<rparr>)"
    by (simp add: never_synced_zero_def)
  then show ?thesis using OfflineEvent by (simp add: never_synced_zero_timer)
next
  case (StartPeriodicSync m)
  assume "never_synced_zero s"
  then show ?thesis using StartPeriodicSync by (simp add: never_synced_zero_timer)
next
  case StopPeriodicSync
  assume "never_synced_zero s"
  then show ?thesis using StopPeriodicSync by (simp add: never_synced_zero_timer)
next
  case (SetSyncInterval m)
  assume "never_synced_zero s"
  then show ?thesis using SetSyncInterval
    by (auto split: sum.splits dest: never_synced_zero_interval)
next
  case (SyncCompleted nav fetched t0 t1 t2)
  assume "never_synced_zero s"
  then show ?thesis using SyncCompleted by (simp add: never_synced_zero_sync)
qed

lemma never_synced_zero_run:
  "never_synced_zero s \<Longrightarrow> never_synced_zero (ntp_run es s)"
  by (induction es arbitrary: s) (simp_all add: never_synced_zero_step)

text \<open>
  C8. In every state an \<open>NTPService\<close> reaches from construction, and for every
  reading \<open>now\<close> of the local clock (a valid time value): if a sync has succeeded
  (\<open>lastSyncTime\<close> non-null), \<open>getCurrentTime\<close> returns the date built from
  \<open>now\<close> plus the stored offset; if none has, it returns the date of \<open>now\<close>
  itself. \<open>getCurrentTime\<close> has no statement that throws, so the model gives it no
  error result: it returns a \<open>Date\<close> in every state.
\<close>

theorem getCurrentTime_reachable:
  assumes "\<bar>now\<bar> \<le> maxTime"
  shows "(lastSyncTime (ntp_run es ntp_init) \<noteq> None \<longrightarrow>
            getCurrentTime now (ntp_run es ntp_init)
              = newDate (jsadd (Num now) (timeOffset (ntp_run es ntp_init))))
         \<and> (lastSyncTime (ntp_run es ntp_init) = None \<longrightarrow>
              getCurrentTime now (ntp_run es ntp_init) = Date (Num now))"
proof -
  have inv: "never_synced_zero (ntp_run es ntp_init)"
    by (rule never_synced_zero_run) (rule never_synced_zero_init)
  show ?thesis
  proof (intro conjI impI)
    assume "lastSyncTime (ntp_run es ntp_init) \<noteq> None"
    then show "getCurrentTime now (ntp_run es ntp_init)
                 = newDate (jsadd (Num now) (timeOffset (ntp_run es ntp_init)))"
      by (simp add: getCurrentTime_def Let_def)
  next
    assume never: "lastSyncTime (ntp_run es ntp_init) = None"
    with inv have "timeOffset (ntp_run es ntp_init) = Num 0"
      by (simp add: never_synced_zero_def)
    with never assms show "getCurrentTime now (ntp_run es ntp_init) = Date (Num now)"
      by (simp add: getCurrentTime_def newDate_def Let_def)
  qed
qed

theorem getCurrentTime_reachable_witness:
  "\<bar>1760444100000\<bar> \<le> maxTime
   \<and> lastSyncTime (ntp_run [] ntp_init) = None
   \<and> getCurrentTime 1760444100000 (ntp_run [] ntp_init) = Date (Num 1760444100000)
   \<and> lastSyncTime (ntp_run [SyncCompleted True (Inr (Date (Num 1760443205000)))
                               1760443200000 1760443200200 1760443200201,
                             SyncCompleted True (Inl (Error ''Request timeout''))
                               1760444000000 1760444005000 1760444005000] ntp_init) \<noteq> None
   \<and> getCurrentTime 1760444100000
        (ntp_run [SyncCompleted True (Inr (Date (Num 1760443205000)))
                    1760443200000 1760443200200 1760443200201,
                  SyncCompleted True (Inl (Error ''Request timeout''))
                    1760444000000 1760444005000 1760444005000] ntp_init)
       = Date (Num 1760444104900)"
  using getCurrentTime_reachable [of 1760444100000 "[]"]
        getCurrentTime_reachable [of 1760444100000
          "[SyncCompleted True (Inr (Date (Num 1760443205000)))
              1760443200000 1760443200200 1760443200201,
            SyncCompleted True (Inl (Error ''Request timeout''))
              1760444000000 1760444005000 1760444005000]"]
  by (simp add: maxTime_def ntp_init_def performSync_def syncCatch_def handleSyncFailure_def
        newDate_def jsTrunc_def roundToDouble_small Let_def)

text \<open>
  C10. In every state of an \<open>NTPService\<close>, reachable or not: when
  \<open>getSyncStatus\<close> reports \<open>isUsingNTPTime\<close>, \<open>getCurrentTime\<close> returns the date
  of \<open>now\<close> plus the stored offset; when it does not, \<open>getCurrentTime\<close> returns
  the date of \<open>now\<close>. Whenever the stored offset is not zero, so that the two dates
  differ, the first happens exactly when the flag is set. The flag is
  \<open>isOnlineMode\<close> or \<open>lastSyncTime\<close> non-null, the condition \<open>getCurrentTime\<close>
  tests.
\<close>

theorem status_matches_time:
  "(isUsingNTPTime (getSyncStatus s) \<longrightarrow>
      getCurrentTime now s = newDate (jsadd (Num now) (timeOffset s)))
   \<and> (\<not> isUsingNTPTime (getSyncStatus s) \<longrightarrow> getCurrentTime now s = Date (Num now))
   \<and> (timeOffset s \<noteq> Num 0 \<longrightarrow>
        (getCurrentTime now s = newDate (jsadd (Num now) (timeOffset s))
           \<longleftrightarrow> isUsingNTPTime (getSyncStatus s)))
   \<and> isUsingNTPTime (getSyncStatus s) = (isOnlineMode s \<or> lastSyncTime s \<noteq> None)"
proof -
  have differ: "newDate (jsadd (Num now) v) \<noteq> Date (Num now)" if "v \<noteq> Num 0" for v
  proof (cases v)
    case NaN
    then show ?thesis by (simp add: newDate_def)
  next
    case (Num k)
    with that show ?thesis by (simp add: newDate_def)
  qed
  show ?thesis
    using differ [of "timeOffset s"]
    by (auto simp: getCurrentTime_def getSyncStatus_def Let_def)
qed

theorem status_matches_time_witness:
  "isUsingNTPTime (getSyncStatus syncedService)
   \<and> timeOffset syncedService \<noteq> Num 0
   \<and> getCurrentTime 1760444100000 syncedService = Date (Num 1760444103000)
   \<and> \<not> isUsingNTPTime (getSyncStatus (syncedService\<lparr>isOnlineMode := False, lastSyncTime := None\<rparr>))
   \<and> getCurrentTime 1760444100000 (syncedService\<lparr>isOnlineMode := False, lastSyncTime := None\<rparr>)
       = Date (Num 1760444100000)"
  using status_matches_time [of syncedService 1760444100000]
        status_matches_time [of "syncedService\<lparr>isOnlineMode := False, lastSyncTime := None\<rparr>" 1760444100000]
  by (simp add: syncedService_def getSyncStatus_def newDate_def maxTime_def Let_def)

section \<open>Time formatting\<close>

lemma digitChar_0: "digitChar 0 = CHR ''0''"
  by (simp add: digitChar_def)

lemma digitsOf_small: "n < 10 \<Longrightarrow> digitsOf n = [digitChar n]"
  by (subst digitsOf.simps) simp

lemma digitsOf_two:
  assumes "10 \<le> n" "n < 100"
  shows "digitsOf n = [digitChar (n div 10), digitChar (n mod 10)]"
proof -
  from assms have "n div 10 < 10" by simp
  then have "digitsOf (n div 10) = [digitChar (n div 10)]" by (rule digitsOf_small)
  moreover from assms have "digitsOf n = digitsOf (n div 10) @ [digitChar (n mod 10)]"
    by (subst digitsOf.simps) simp
  ultimately show ?thesis by simp
qed

lemma pad2:
  assumes "0 \<le> n" "n < 100"
  shows "padStart 2 CHR ''0'' (numToString (Num n)) = twoDigits n"
proof (cases "n < 10")
  case True
  with assms have "nat n < 10" by simp
  then have "digitsOf (nat n) = [digitChar (nat n)]" by (rule digitsOf_small)
  with True assms show ?thesis
    by (simp add: padStart_def twoDigits_def digitChar_0)
next
  case False
  with assms have "10 \<le> nat n" "nat n < 100" by simp_all
  then have "digitsOf (nat n) = [digitChar (nat n div 10), digitChar (nat n mod 10)]"
    by (rule digitsOf_two)
  moreover have "nat n div 10 = nat (n div 10)" "nat n mod 10 = nat (n mod 10)"
    using assms by (simp_all add: nat_div_distrib nat_mod_distrib)
  ultimately show ?thesis using assms
    by (simp add: padStart_def twoDigits_def)
qed

lemma getHours_range: "getHours rt d = Num h \<Longrightarrow> 0 \<le> h \<and> h < 24"
  by (auto simp: getHours_def localField_def HourFromTime_def split: jsnum.splits)

lemma getMinutes_range: "getMinutes rt d = Num m \<Longrightarrow> 0 \<le> m \<and> m < 60"
  by (auto simp: getMinutes_def localField_def MinFromTime_def split: jsnum.splits)

lemma getSeconds_range: "getSeconds rt d = Num m \<Longrightarrow> 0 \<le> m \<and> m < 60"
  by (auto simp: getSeconds_def localField_def SecFromTime_def split: jsnum.splits)

lemma displayHour_range: "0 \<le> h \<Longrightarrow> h < 24 \<Longrightarrow> 0 \<le> spec_displayHour u h \<and> spec_displayHour u h < 100"
  by (auto simp: spec_displayHour_def intro: order.strict_trans[OF pos_mod_bound])

text \<open>
  C7. For every date whose local wall clock reads hour \<open>h\<close>, minute \<open>m\<close> and second
  \<open>sec\<close>, and for both preference flags, \<open>formatTime\<close> produces the time string and
  the meridiem of the specification: in 12-hour mode \<open>AM\<close> for hours 0 to 11 and
  \<open>PM\<close> otherwise, with the hour shown as \<open>h mod 12\<close> and 0 as 12; in 24-hour mode
  an empty meridiem and the raw hour; every field padded to two digits; the seconds
  segment exactly when \<open>showSeconds\<close> is set. In particular 14:30:45 in 12-hour mode
  with seconds is \<open>02:30:45\<close> with meridiem \<open>PM\<close>.
\<close>

theorem formatTime_spec:
  assumes "getHours rt d = Num h" "getMinutes rt d = Num m" "getSeconds rt d = Num sec"
  shows "timeString (formatTime rt prefs s d)
           = spec_timeString (use24HourFormat prefs) (showSeconds prefs) h m sec
         \<and> ampm (formatTime rt prefs s d) = spec_meridiem (use24HourFormat prefs) h
         \<and> (h = 14 \<and> m = 30 \<and> sec = 45 \<and> \<not> use24HourFormat prefs \<and> showSeconds prefs \<longrightarrow>
              timeString (formatTime rt prefs s d) = ''02:30:45''
              \<and> ampm (formatTime rt prefs s d) = ''PM'')"
proof -
  have h: "0 \<le> h" "h < 24" using getHours_range [OF assms(1)] by simp_all
  have m: "0 \<le> m" "m < 100" using getMinutes_range [OF assms(2)] by simp_all
  have sec: "0 \<le> sec" "sec < 100" using getSeconds_range [OF assms(3)] by simp_all
  have hour1: "(if \<not> use24HourFormat prefs
                then (if jsrem (Num h) 12 = Num 0 then Num 12 else jsrem (Num h) 12)
                else Num h) = Num (spec_displayHour (use24HourFormat prefs) h)"
    using h by (simp add: spec_displayHour_def)
  have dh: "0 \<le> spec_displayHour (use24HourFormat prefs) h"
           "spec_displayHour (use24HourFormat prefs) h < 100"
    using displayHour_range [OF h] by simp_all
  have ts: "timeString (formatTime rt prefs s d)
              = spec_timeString (use24HourFormat prefs) (showSeconds prefs) h m sec"
    unfolding formatTime_def Let_def assms
    unfolding hour1 pad2 [OF dh] pad2 [OF m] pad2 [OF sec]
    by (simp add: spec_timeString_def)
  have ap: "ampm (formatTime rt prefs s d) = spec_meridiem (use24HourFormat prefs) h"
    unfolding formatTime_def Let_def assms
    using h by (auto simp: spec_meridiem_def)
  have ex: "spec_timeString False True 14 30 45 = ''02:30:45''"
    by (simp add: spec_timeString_def spec_displayHour_def twoDigits_def digitChar_def)
  show ?thesis using ts ap ex by (auto simp: spec_meridiem_def)
qed

theorem formatTime_spec_witness:
  "getHours utcRuntime (Date (Num 1760452245000)) = Num 14
   \<and> getMinutes utcRuntime (Date (Num 1760452245000)) = Num 30
   \<and> getSeconds utcRuntime (Date (Num 1760452245000)) = Num 45
   \<and> timeString (formatTime utcRuntime \<lparr>showSeconds = True, use24HourFormat = False\<rparr> tc_init
                    (Date (Num 1760452245000))) = ''02:30:45''
   \<and> ampm (formatTime utcRuntime \<lparr>showSeconds = True, use24HourFormat = False\<rparr> tc_init
              (Date (Num 1760452245000))) = ''PM''"
proof -
  have h: "getHours utcRuntime (Date (Num 1760452245000)) = Num 14" by code_simp
  have m: "getMinutes utcRuntime (Date (Num 1760452245000)) = Num 30" by code_simp
  have s: "getSeconds utcRuntime (Date (Num 1760452245000)) = Num 45" by code_simp
  show ?thesis
    using h m s
      formatTime_spec [OF h m s, of "\<lparr>showSeconds = True, use24HourFormat = False\<rparr>" tc_init]
    by (simp add: spec_timeString_def spec_displayHour_def spec_meridiem_def twoDigits_def
          digitChar_def)
qed

section \<open>Week numbers and invalid dates\<close>

lemma getWeekNumber_fields:
  "getWeekNumber rt d = weekOfFields (getFullYear rt d) (getMonth rt d) (getDate rt d)"
  by (simp add: getWeekNumber_def weekOfFields_def)

lemma week_2025_01_01: "weekOfFields (Num 2025) (Num 0) (Num 1) = Num 1"
  by code_simp

lemma week_2025_01_06: "weekOfFields (Num 2025) (Num 0) (Num 6) = Num 2"
  by code_simp

lemma week_2025_10_14: "weekOfFields (Num 2025) (Num 9) (Num 14) = Num 42"
  by code_simp

lemma week_2025_12_29: "weekOfFields (Num 2025) (Num 11) (Num 29) = Num 1"
  by code_simp

text \<open>
  C6. For every date whose local calendar date is 1 January 2025, \<open>getWeekNumber\<close>
  returns 1; for 6 January 2025 it returns 2; for 14 October 2025 it returns 42; for
  29 December 2025 it returns 1, the first week of 2026. The time of day and the
  system time zone do not matter.
\<close>

theorem getWeekNumber_vectors:
  "(getFullYear rt d = Num 2025 \<and> getMonth rt d = Num 0 \<and> getDate rt d = Num 1
      \<longrightarrow> getWeekNumber rt d = Num 1)
   \<and> (getFullYear rt d = Num 2025 \<and> getMonth rt d = Num 0 \<and> getDate rt d = Num 6
      \<longrightarrow> getWeekNumber rt d = Num 2)
   \<and> (getFullYear rt d = Num 2025 \<and> getMonth rt d = Num 9 \<and> getDate rt d = Num 14
      \<longrightarrow> getWeekNumber rt d = Num 42)
   \<and> (getFullYear rt d = Num 2025 \<and> getMonth rt d = Num 11 \<and> getDate rt d = Num 29
      \<longrightarrow> getWeekNumber rt d = Num 1)"
  by (simp add: getWeekNumber_fields week_2025_01_01 week_2025_01_06 week_2025_10_14
        week_2025_12_29)

lemma fields_2025_01_01:
  "getFullYear utcRuntime (Date (Num 1735689600000)) = Num 2025
   \<and> getMonth utcRuntime (Date (Num 1735689600000)) = Num 0
   \<and> getDate utcRuntime (Date (Num 1735689600000)) = Num 1"
  by code_simp

lemma fields_2025_01_06:
  "getFullYear utcRuntime (Date (Num 1736121600000)) = Num 2025
   \<and> getMonth utcRuntime (Date (Num 1736121600000)) = Num 0
   \<and> getDate utcRuntime (Date (Num 1736121600000)) = Num 6"
  by code_simp

lemma fields_2025_10_14:
  "getFullYear utcRuntime (Date (Num 1760400000000)) = Num 2025
   \<and> getMonth utcRuntime (Date (Num 1760400000000)) = Num 9
   \<and> getDate utcRuntime (Date (Num 1760400000000)) = Num 14"
  by code_simp

lemma fields_2025_12_29:
  "getFullYear utcRuntime (Date (Num 1766966400000)) = Num 2025
   \<and> getMonth utcRuntime (Date (Num 1766966400000)) = Num 11
   \<and> getDate utcRuntime (Date (Num 1766966400000)) = Num 29"
  by code_simp

theorem getWeekNumber_vectors_witness:
  "getFullYear utcRuntime (Date (Num 1735689600000)) = Num 2025
   \<and> getMonth utcRuntime (Date (Num 1735689600000)) = Num 0
   \<and> getDate utcRuntime (Date (Num 1735689600000)) = Num 1
   \<and> getWeekNumber utcRuntime (Date (Num 1735689600000)) = Num 1
   \<and> getFullYear utcRuntime (Date (Num 1736121600000)) = Num 2025
   \<and> getMonth utcRuntime (Date (Num 1736121600000)) = Num 0
   \<and> getDate utcRuntime (Date (Num 1736121600000)) = Num 6
   \<and> getWeekNumber utcRuntime (Date (Num 1736121600000)) = Num 2
   \<and> getFullYear utcRuntime (Date (Num 1760400000000)) = Num 2025
   \<and> getMonth utcRuntime (Date (Num 1760400000000)) = Num 9
   \<and> getDate utcRuntime (Date (Num 1760400000000)) = Num 14
   \<and> getWeekNumber utcRuntime (Date (Num 1760400000000)) = Num 42
   \<and> getFullYear utcRuntime (Date (Num 1766966400000)) = Num 2025
   \<and> getMonth utcRuntime (Date (Num 1766966400000)) = Num 11
   \<and> getDate utcRuntime (Date (Num 1766966400000)) = Num 29
   \<and> getWeekNumber utcRuntime (Date (Num 1766966400000)) = Num 1"
  using getWeekNumber_vectors [of utcRuntime "Date (Num 1735689600000)"]
        getWeekNumber_vectors [of utcRuntime "Date (Num 1736121600000)"]
        getWeekNumber_vectors [of utcRuntime "Date (Num 1760400000000)"]
        getWeekNumber_vectors [of utcRuntime "Date (Num 1766966400000)"]
        fields_2025_01_01 fields_2025_01_06 fields_2025_10_14 fields_2025_12_29
  by simp

lemma invalid_fields:
  "getHours rt (Date NaN) = NaN" "getMinutes rt (Date NaN) = NaN"
  "getSeconds rt (Date NaN) = NaN" "getDay rt (Date NaN) = NaN"
  "getDate rt (Date NaN) = NaN" "getMonth rt (Date NaN) = NaN"
  "getFullYear rt (Date NaN) = NaN"
  by (simp_all add: getHours_def getMinutes_def getSeconds_def getDay_def getDate_def
        getMonth_def getFullYear_def localField_def)

lemma week_invalid: "weekOfFields NaN NaN NaN = NaN"
  by code_simp

lemma intlWallClock_invalid:
  "intlWallClock rt tz (Date NaN)
     = Inl (if zoneSupported rt tz then RangeError (timeErrorText rt)
            else RangeError (zoneErrorText rt tz))"
  by (simp add: intlWallClock_def)

text \<open>
  C5, as the code has it. Given an invalid \<open>Date\<close>, \<open>formatTime\<close> and \<open>formatDate\<close>
  do not throw (neither has a statement that can, so the model gives them no error
  result) and return an ordinary result built from \<open>NaN\<close> and \<open>undefined\<close>:
  \<open>formatTime\<close> gives \<open>NaN:NaN\<close>, with \<open>:NaN\<close> appended when seconds are shown, and
  the meridiem \<open>AM\<close> in 12-hour mode; \<open>formatDate\<close> gives
  \<open>undefined, NaN undefined, NaN, week NaN\<close>. The per-clock update catches the
  exception of the date formatter and stores the \<open>--\<close> placeholders with
  \<open>isError\<close> set.
\<close>

theorem invalid_date_formatting:
  "timeString (formatTime rt prefs s (Date NaN))
     = (if showSeconds prefs then ''NaN:NaN:NaN'' else ''NaN:NaN'')
   \<and> ampm (formatTime rt prefs s (Date NaN)) = (if use24HourFormat prefs then [] else ''AM'')
   \<and> formatDate rt (Date NaN)
       = \<lparr> dateString = ''undefined, NaN undefined, NaN, week NaN'', dayName = None,
           day = NaN, monthName = None, year = NaN, weekNumber = NaN, fullDate = Date NaN \<rparr>
   \<and> updateWorldClockTime rt (Date NaN) wc = wc\<lparr>timeData := Some errorTimeData\<rparr>
   \<and> isError errorTimeData \<and> hours errorTimeData = VStr ''--''"
proof (intro conjI)
  show "timeString (formatTime rt prefs s (Date NaN))
          = (if showSeconds prefs then ''NaN:NaN:NaN'' else ''NaN:NaN'')"
    by (simp add: formatTime_def invalid_fields padStart_def Let_def)
  show "ampm (formatTime rt prefs s (Date NaN)) = (if use24HourFormat prefs then [] else ''AM'')"
    by (simp add: formatTime_def invalid_fields Let_def)
  show "formatDate rt (Date NaN)
       = \<lparr> dateString = ''undefined, NaN undefined, NaN, week NaN'', dayName = None,
           day = NaN, monthName = None, year = NaN, weekNumber = NaN, fullDate = Date NaN \<rparr>"
    by (simp add: formatDate_def getWeekNumber_fields invalid_fields week_invalid Let_def)
  show "updateWorldClockTime rt (Date NaN) wc = wc\<lparr>timeData := Some errorTimeData\<rparr>"
    by (simp add: updateWorldClockTime_def formatDateForTimezone_def intlWallClock_invalid Let_def)
  show "isError errorTimeData" by (simp add: errorTimeData_def)
  show "hours errorTimeData = VStr ''--''" by (simp add: errorTimeData_def)
qed

theorem invalid_date_formatting_witness:
  "timeString (formatTime utcRuntime \<lparr>showSeconds = False, use24HourFormat = True\<rparr> tc_init (Date NaN))
     = ''NaN:NaN''
   \<and> ampm (formatTime utcRuntime \<lparr>showSeconds = False, use24HourFormat = True\<rparr> tc_init (Date NaN)) = []"
  using invalid_date_formatting [of utcRuntime "\<lparr>showSeconds = False, use24HourFormat = True\<rparr>" tc_init]
  by simp

text \<open>
  The invalid date in 12-hour mode with seconds: the result is no placeholder but the
  text \<open>NaN:NaN:NaN\<close> with meridiem \<open>AM\<close>, and the date string is made of
  \<open>undefined\<close> and \<open>NaN\<close>.
\<close>

theorem invalid_date_counterexample:
  "timeString (formatTime utcRuntime \<lparr>showSeconds = True, use24HourFormat = False\<rparr> tc_init (Date NaN))
     = ''NaN:NaN:NaN''
   \<and> ampm (formatTime utcRuntime \<lparr>showSeconds = True, use24HourFormat = False\<rparr> tc_init (Date NaN))
     = ''AM''
   \<and> dateString (formatDate utcRuntime (Date NaN)) = ''undefined, NaN undefined, NaN, week NaN''"
  by code_simp

section \<open>The world-clock list\<close>

lemma updateWorldClockTime_timezone:
  "timezone (updateWorldClockTime rt now wc) = timezone wc"
  by (simp add: updateWorldClockTime_def Let_def split: sum.splits)

lemma wc_ok_filter: "wc_ok ws \<Longrightarrow> wc_ok (filter P ws)"
  unfolding wc_ok_def
  by (auto simp: distinct_map_filter intro: order_trans [OF length_filter_le])

lemma wc_ok_push:
  assumes "wc_ok ws" "length ws < 3" "\<not> list_ex (\<lambda>wc. timezone wc = tz) ws" "timezone c = tz"
  shows "wc_ok (ws @ [c])"
  using assms unfolding wc_ok_def by (auto simp: list_ex_iff)

lemma wc_ok_add:
  assumes "wc_ok ws"
  shows "wc_ok (snd (addWorldClock rt now newId nameOf settings tz city ws))"
proof (cases "length ws \<ge> 3 \<or> list_ex (\<lambda>wc. timezone wc = tz) ws \<or> \<not> isValidTimezone rt tz")
  case True
  then show ?thesis using assms by (auto simp: addWorldClock_def)
next
  case False
  then have room: "length ws < 3" and fresh: "\<not> list_ex (\<lambda>wc. timezone wc = tz) ws"
    by auto
  have push: "wc_ok (ws @ [c])" if "timezone c = tz" for c
    using wc_ok_push [OF assms room fresh that] .
  show ?thesis
  proof (cases settings)
    case Saved
    then show ?thesis using False
      by (simp add: addWorldClock_def Let_def push updateWorldClockTime_timezone)
  next
    case Rejected
    then show ?thesis using False
      by (simp add: addWorldClock_def Let_def push wc_ok_filter del: filter_append filter.simps)
  next
    case Threw
    then show ?thesis using False
      by (simp add: addWorldClock_def Let_def push)
  qed
qed

lemma wc_ok_remove: "wc_ok ws \<Longrightarrow> wc_ok (snd (removeWorldClock settings ident ws))"
  by (simp add: removeWorldClock_def Let_def wc_ok_filter)

lemma wc_ok_step: "wc_ok ws \<Longrightarrow> wc_ok (wc_step rt x ws)"
  by (cases x) (simp_all add: wc_ok_add wc_ok_remove)

lemma wc_ok_run: "wc_ok ws \<Longrightarrow> wc_ok (wc_run rt xs ws)"
  by (induction xs arbitrary: ws) (simp_all add: wc_ok_step)

text \<open>
  C9. After every sequence of \<open>addWorldClock\<close> and \<open>removeWorldClock\<close> calls on the
  empty list, whatever the settings collaborator answers, the list has at most three
  clocks and no two of them have the same time zone identifier; and \<open>addWorldClock\<close>
  returns \<open>false\<close> and leaves the list as it is when the list already has three
  clocks or already has one for the given zone.
\<close>

theorem world_clock_set_bounded:
  "length (wc_run rt xs []) \<le> 3
   \<and> distinct (map timezone (wc_run rt xs []))
   \<and> (length ws \<ge> 3 \<or> tz \<in> timezone ` set ws \<longrightarrow>
        addWorldClock rt now newId nameOf settings tz city ws = (None, ws))"
proof -
  have "wc_ok (wc_run rt xs [])"
    by (rule wc_ok_run) (simp add: wc_ok_def)
  moreover have "addWorldClock rt now newId nameOf settings tz city ws = (None, ws)"
    if "length ws \<ge> 3 \<or> tz \<in> timezone ` set ws"
    using that by (auto simp: addWorldClock_def list_ex_iff)
  ultimately show ?thesis by (simp add: wc_ok_def)
qed

theorem world_clock_set_bounded_witness:
  "''UTC'' \<in> timezone ` set [utcClock]
   \<and> addWorldClock utcRuntime (Date (Num 1760452245000)) ''wc_1760452245000_p0o9i8u7y''
        (\<lambda>tz. tz) Saved ''UTC'' None [utcClock] = (None, [utcClock])
   \<and> length [utcClock, utcClock\<lparr>timezone := ''Asia/Tokyo''\<rparr>,
               utcClock\<lparr>timezone := ''Europe/Paris''\<rparr>] \<ge> 3
   \<and> addWorldClock utcRuntime (Date (Num 1760452245000)) ''wc_1760452245000_p0o9i8u7y''
        (\<lambda>tz. tz) Saved ''Europe/London'' None
        [utcClock, utcClock\<lparr>timezone := ''Asia/Tokyo''\<rparr>, utcClock\<lparr>timezone := ''Europe/Paris''\<rparr>]
       = (None, [utcClock, utcClock\<lparr>timezone := ''Asia/Tokyo''\<rparr>,
                 utcClock\<lparr>timezone := ''Europe/Paris''\<rparr>])
   \<and> length (wc_run utcRuntime
        [AddWorldClock (Date (Num 1760452245000)) ''wc_1760452245000_p0o9i8u7y'' (\<lambda>tz. tz)
           Saved ''UTC'' None,
         AddWorldClock (Date (Num 1760452246000)) ''wc_1760452246000_a1s2d3f4g'' (\<lambda>tz. tz)
           Saved ''UTC'' (Some ''Greenwich'')] []) \<le> 3"
  using world_clock_set_bounded [of utcRuntime
          "[AddWorldClock (Date (Num 1760452245000)) ''wc_1760452245000_p0o9i8u7y'' (\<lambda>tz. tz)
              Saved ''UTC'' None,
            AddWorldClock (Date (Num 1760452246000)) ''wc_1760452246000_a1s2d3f4g'' (\<lambda>tz. tz)
              Saved ''UTC'' (Some ''Greenwich'')]"
          "[utcClock]" "''UTC''" "Date (Num 1760452245000)" "''wc_1760452245000_p0o9i8u7y''"
          "\<lambda>tz. tz" Saved None]
        world_clock_set_bounded [of utcRuntime "[]"
          "[utcClock, utcClock\<lparr>timezone := ''Asia/Tokyo''\<rparr>, utcClock\<lparr>timezone := ''Europe/Paris''\<rparr>]"
          "''Europe/London''" "Date (Num 1760452245000)" "''wc_1760452245000_p0o9i8u7y''"
          "\<lambda>tz. tz" Saved None]
  by (simp add: utcClock_def)

section \<open>Unsupported time zones and the week number of a zone\<close>

lemma getFallback_flags:
  "isError (getFallbackTimeForTimezone rt d tz) = False"
  "isFallback (getFallbackTimeForTimezone rt d tz) = Some True"
  "wc_timezone (getFallbackTimeForTimezone rt d tz) = Some tz"
  by (simp_all add: getFallbackTimeForTimezone_def Let_def split_def)

lemma fallback_utcTime:
  "realAdd (toReal (getTime (Date (Num t)))) (realMul (getTimezoneOffset rt (Date (Num t))) 60000)
     = Some (of_int (t - localTZA rt t True))"
  by (simp add: getTimezoneOffset_def LocalTime_def)

lemma fallback_fields:
  fixes off :: rat
  assumes "fallbackOffset tz = Some off"
    and "\<bar>of_int (t - localTZA rt t True) + off * 3600000\<bar> \<le> of_int maxTime"
  shows "getFallbackTimeForTimezone rt (Date (Num t)) tz
           = \<lparr> hours = VNum (Num (HourFromTime (fallbackClock rt t off))),
               hours12 = Some (VNum (fst (to12Hour (Num (HourFromTime (fallbackClock rt t off)))))),
               minutes = VNum (Num (MinFromTime (fallbackClock rt t off))),
               seconds = VNum (Num (SecFromTime (fallbackClock rt t off))),
               wc_ampm = snd (to12Hour (Num (HourFromTime (fallbackClock rt t off)))),
               wc_timezone = Some tz, isError = False, isFallback = Some True,
               errorMessage = None, td_date = None \<rparr>"
proof -
  have "newDateReal (realAdd (Some (of_int (t - localTZA rt t True))) (realMul (Some off) 3600000))
          = Date (Num (fallbackClock rt t off))"
    using assms(2) by (simp add: fallbackClock_def)
  then show ?thesis
    unfolding getFallbackTimeForTimezone_def fallback_utcTime assms(1) Let_def
    by (simp add: split_def getUTCHours_def getUTCMinutes_def getUTCSeconds_def utcField_def)
qed

lemma prototype_keys_not_in_table:
  "list_all (\<lambda>tz. map_of timezoneOffsets tz = None) objectPrototypeKeys"
  by code_simp

lemma prototype_key_not_in_table:
  "tz \<in> set objectPrototypeKeys \<Longrightarrow> map_of timezoneOffsets tz = None"
  using prototype_keys_not_in_table by (simp add: list_all_iff)

lemma fallback_prototype_key:
  assumes "tz \<in> set objectPrototypeKeys"
  shows "getFallbackTimeForTimezone rt d tz
           = \<lparr> hours = VNum NaN, hours12 = Some (VNum NaN), minutes = VNum NaN,
               seconds = VNum NaN, wc_ampm = ''AM'', wc_timezone = Some tz, isError = False,
               isFallback = Some True, errorMessage = None, td_date = None \<rparr>"
proof -
  have "fallbackOffset tz = None"
    using assms prototype_key_not_in_table [OF assms] by (simp add: fallbackOffset_def)
  then show ?thesis
    by (simp add: getFallbackTimeForTimezone_def Let_def split_def getUTCHours_def
          getUTCMinutes_def getUTCSeconds_def utcField_def to12Hour_def)
qed

text \<open>
  C3, as the code has it. For a time zone identifier the runtime does not support,
  \<open>getTimeForTimezone\<close> signals no error: it returns what
  \<open>getFallbackTimeForTimezone\<close> computes, with \<open>isError\<close> false and \<open>isFallback\<close>
  true. For a valid date \<open>t\<close>, on a system whose offset is a whole number of minutes,
  the clock fields are the UTC fields of \<open>t\<close> minus the system offset plus the
  fallback offset in hours, as long as that instant is a valid date too. That offset is the entry of the built-in table for an
  identifier the table has, and 0 for any other identifier, unless the identifier is
  one of the twelve property names every object inherits (\<open>constructor\<close>,
  \<open>toString\<close> and so on): then the lookup gives no number, and every field is
  \<open>NaN\<close>. The error shows one level up: \<open>formatDateForTimezone\<close> throws the
  runtime's \<open>RangeError\<close> for the zone, and \<open>updateWorldClockTime\<close> then stores the
  \<open>--\<close> placeholders with \<open>isError\<close> set for that clock.
\<close>

theorem unsupported_zone_fallback:
  fixes off v :: rat
  assumes "\<not> zoneSupported rt tz"
  shows "getTimeForTimezone rt d tz = getFallbackTimeForTimezone rt d tz
         \<and> isError (getTimeForTimezone rt d tz) = False
         \<and> isFallback (getTimeForTimezone rt d tz) = Some True
         \<and> (\<bar>t\<bar> \<le> maxTime \<and> localTZA rt t True mod 60000 = 0
              \<and> fallbackOffset tz = Some off
              \<and> \<bar>of_int (t - localTZA rt t True) + off * 3600000\<bar> \<le> of_int maxTime \<longrightarrow>
              getTimeForTimezone rt (Date (Num t)) tz
                = \<lparr> hours = VNum (Num (HourFromTime (fallbackClock rt t off))),
                    hours12 = Some (VNum (fst (to12Hour (Num (HourFromTime (fallbackClock rt t off)))))),
                    minutes = VNum (Num (MinFromTime (fallbackClock rt t off))),
                    seconds = VNum (Num (SecFromTime (fallbackClock rt t off))),
                    wc_ampm = snd (to12Hour (Num (HourFromTime (fallbackClock rt t off)))),
                    wc_timezone = Some tz, isError = False, isFallback = Some True,
                    errorMessage = None, td_date = None \<rparr>)
         \<and> (map_of timezoneOffsets tz = Some v \<longrightarrow> fallbackOffset tz = Some v)
         \<and> (map_of timezoneOffsets tz = None \<and> tz \<notin> set objectPrototypeKeys \<longrightarrow>
              fallbackOffset tz = Some 0)
         \<and> (tz \<in> set objectPrototypeKeys \<longrightarrow>
              getTimeForTimezone rt d tz
                = \<lparr> hours = VNum NaN, hours12 = Some (VNum NaN), minutes = VNum NaN,
                    seconds = VNum NaN, wc_ampm = ''AM'', wc_timezone = Some tz,
                    isError = False, isFallback = Some True, errorMessage = None,
                    td_date = None \<rparr>)
         \<and> formatDateForTimezone rt d tz = Inl (RangeError (zoneErrorText rt tz))
         \<and> updateWorldClockTime rt d (wc\<lparr>timezone := tz\<rparr>)
             = wc\<lparr>timezone := tz, timeData := Some errorTimeData\<rparr>"
proof -
  have wall: "intlWallClock rt tz x = Inl (RangeError (zoneErrorText rt tz))" for x
    using assms by (simp add: intlWallClock_def)
  have same: "getTimeForTimezone rt x tz = getFallbackTimeForTimezone rt x tz" for x
    by (simp add: getTimeForTimezone_def wall)
  have fmt: "formatDateForTimezone rt d tz = Inl (RangeError (zoneErrorText rt tz))"
    by (simp add: formatDateForTimezone_def wall)
  have upd: "updateWorldClockTime rt d (wc\<lparr>timezone := tz\<rparr>)
               = wc\<lparr>timezone := tz, timeData := Some errorTimeData\<rparr>"
    by (simp add: updateWorldClockTime_def fmt Let_def)
  have tab: "fallbackOffset tz = Some v" if "map_of timezoneOffsets tz = Some v"
    using that by (simp add: fallbackOffset_def)
  have zero: "fallbackOffset tz = Some 0"
    if "map_of timezoneOffsets tz = None \<and> tz \<notin> set objectPrototypeKeys"
    using that by (simp add: fallbackOffset_def)
  show ?thesis
    unfolding same
    using fmt upd tab zero fallback_fields [of tz off t rt] fallback_prototype_key [of tz rt d]
    by (simp add: getFallback_flags)
qed

theorem unsupported_zone_fallback_witness:
  "\<not> zoneSupported utcRuntime ''Mars/Olympus_Mons''
   \<and> map_of timezoneOffsets ''Mars/Olympus_Mons'' = None
   \<and> ''Mars/Olympus_Mons'' \<notin> set objectPrototypeKeys
   \<and> getTimeForTimezone utcRuntime (Date (Num 1760452245000)) ''Mars/Olympus_Mons''
       = \<lparr> hours = VNum (Num 14), hours12 = Some (VNum (Num 2)), minutes = VNum (Num 30),
           seconds = VNum (Num 45), wc_ampm = ''PM'', wc_timezone = Some ''Mars/Olympus_Mons'',
           isError = False, isFallback = Some True, errorMessage = None, td_date = None \<rparr>
   \<and> \<not> zoneSupported utcRuntime ''Asia/Kolkata''
   \<and> map_of timezoneOffsets ''Asia/Kolkata'' = Some (11 / 2)
   \<and> getTimeForTimezone utcRuntime (Date (Num 1760452245000)) ''Asia/Kolkata''
       = \<lparr> hours = VNum (Num 20), hours12 = Some (VNum (Num 8)), minutes = VNum (Num 0),
           seconds = VNum (Num 45), wc_ampm = ''PM'', wc_timezone = Some ''Asia/Kolkata'',
           isError = False, isFallback = Some True, errorMessage = None, td_date = None \<rparr>
   \<and> \<not> zoneSupported utcRuntime ''constructor''
   \<and> ''constructor'' \<in> set objectPrototypeKeys
   \<and> getTimeForTimezone utcRuntime (Date (Num 1760452245000)) ''constructor''
       = \<lparr> hours = VNum NaN, hours12 = Some (VNum NaN), minutes = VNum NaN,
           seconds = VNum NaN, wc_ampm = ''AM'', wc_timezone = Some ''constructor'',
           isError = False, isFallback = Some True, errorMessage = None, td_date = None \<rparr>"
proof -
  have um: "\<not> zoneSupported utcRuntime ''Mars/Olympus_Mons''"
    and uk: "\<not> zoneSupported utcRuntime ''Asia/Kolkata''"
    and uc: "\<not> zoneSupported utcRuntime ''constructor''"
    by (simp_all add: utcRuntime_def)
  have tm: "map_of timezoneOffsets ''Mars/Olympus_Mons'' = None"
    and pm: "''Mars/Olympus_Mons'' \<notin> set objectPrototypeKeys"
    and tk: "map_of timezoneOffsets ''Asia/Kolkata'' = Some (11 / 2)"
    and pc: "''constructor'' \<in> set objectPrototypeKeys"
    by (simp_all add: timezoneOffsets_def objectPrototypeKeys_def)
  have sys: "localTZA utcRuntime 1760452245000 True = 0"
    by (simp add: utcRuntime_def)
  have cm: "fallbackClock utcRuntime 1760452245000 0 = 1760452245000"
    and ck: "fallbackClock utcRuntime 1760452245000 (11 / 2) = 1760472045000"
    by (simp_all add: fallbackClock_def sys jsTrunc_def)
  have fm: "HourFromTime 1760452245000 = 14" "MinFromTime 1760452245000 = 30"
           "SecFromTime 1760452245000 = 45"
    and fk: "HourFromTime 1760472045000 = 20" "MinFromTime 1760472045000 = 0"
            "SecFromTime 1760472045000 = 45"
    by (simp_all add: HourFromTime_def MinFromTime_def SecFromTime_def)
  note m = unsupported_zone_fallback [OF um, where t = 1760452245000 and off = 0 and v = 0
        and d = "Date (Num 1760452245000)" and wc = utcClock]
  note k = unsupported_zone_fallback [OF uk, where t = 1760452245000 and off = "11 / 2"
        and v = "11 / 2" and d = "Date (Num 1760452245000)" and wc = utcClock]
  note c = unsupported_zone_fallback [OF uc, where t = 1760452245000 and off = 0 and v = 0
        and d = "Date (Num 1760452245000)" and wc = utcClock]
  have om: "fallbackOffset ''Mars/Olympus_Mons'' = Some 0"
    using m [THEN conjunct2, THEN conjunct2, THEN conjunct2, THEN conjunct2, THEN conjunct2,
             THEN conjunct1] tm pm
    by simp
  have ok: "fallbackOffset ''Asia/Kolkata'' = Some (11 / 2)"
    using k [THEN conjunct2, THEN conjunct2, THEN conjunct2, THEN conjunct2, THEN conjunct1] tk
    by simp
  have rm: "getTimeForTimezone utcRuntime (Date (Num 1760452245000)) ''Mars/Olympus_Mons''
       = \<lparr> hours = VNum (Num 14), hours12 = Some (VNum (Num 2)), minutes = VNum (Num 30),
           seconds = VNum (Num 45), wc_ampm = ''PM'', wc_timezone = Some ''Mars/Olympus_Mons'',
           isError = False, isFallback = Some True, errorMessage = None, td_date = None \<rparr>"
    using m [THEN conjunct2, THEN conjunct2, THEN conjunct2, THEN conjunct1] om
    by (simp add: sys cm fm maxTime_def to12Hour_def)
  have rk: "getTimeForTimezone utcRuntime (Date (Num 1760452245000)) ''Asia/Kolkata''
       = \<lparr> hours = VNum (Num 20), hours12 = Some (VNum (Num 8)), minutes = VNum (Num 0),
           seconds = VNum (Num 45), wc_ampm = ''PM'', wc_timezone = Some ''Asia/Kolkata'',
           isError = False, isFallback = Some True, errorMessage = None, td_date = None \<rparr>"
    using k [THEN conjunct2, THEN conjunct2, THEN conjunct2, THEN conjunct1] ok
    by (simp add: sys ck fk maxTime_def to12Hour_def)
  have rc: "getTimeForTimezone utcRuntime (Date (Num 1760452245000)) ''constructor''
       = \<lparr> hours = VNum NaN, hours12 = Some (VNum NaN), minutes = VNum NaN,
           seconds = VNum NaN, wc_ampm = ''AM'', wc_timezone = Some ''constructor'',
           isError = False, isFallback = Some True, errorMessage = None, td_date = None \<rparr>"
    using c [THEN conjunct2, THEN conjunct2, THEN conjunct2, THEN conjunct2, THEN conjunct2,
             THEN conjunct2, THEN conjunct1] pc
    by simp
  show ?thesis
    using um uk uc tm pm tk pc rm rk rc by simp
qed

text \<open>
  An identifier no time zone database has: the result says \<open>isError: false\<close>.
\<close>

theorem unsupported_zone_counterexample:
  "\<not> zoneSupported utcRuntime ''Mars/Olympus_Mons''
   \<and> isError (getTimeForTimezone utcRuntime (Date (Num 1760452245000)) ''Mars/Olympus_Mons'')
       = False"
  by code_simp

text \<open>
  C2, at 29 December 2025, 12:00 UTC, for the zone \<open>UTC\<close> on a system in UTC:
  \<open>getWeekNumberForTimezone\<close> returns 53 where the ISO rule of \<open>getWeekNumber\<close>
  gives week 1 for the same wall-clock date.
\<close>

theorem week_number_for_timezone_not_iso:
  "zoneSupported utcRuntime ''UTC''
   \<and> getWeekNumberForTimezone utcRuntime (Date (Num 1767009600000)) ''UTC'' = Num 53
   \<and> getWeekNumber utcRuntime (Date (Num 1767009600000)) = Num 1
   \<and> getFullYear utcRuntime (Date (Num 1767009600000)) = Num 2025
   \<and> getMonth utcRuntime (Date (Num 1767009600000)) = Num 11
   \<and> getDate utcRuntime (Date (Num 1767009600000)) = Num 29"
  by code_simp

section \<open>The calendar functions\<close>

text \<open>
  The year function is the one the standard describes: \<open>YearFromDay d\<close> is the year
  whose first day is at or before \<open>d\<close> and whose successor starts after \<open>d\<close>, and
  consecutive years start \<open>DaysInYear\<close> days apart. Week days and months stay within
  the name tables.
\<close>

lemma DayFromYear_flat:
  "400 * DayFromYear y =
     146000 * y - 287620000 + 400 * ((y - 1969) div 4) - 400 * ((y - 1901) div 100)
       + 400 * ((y - 1601) div 400)"
  by (simp add: DayFromYear_def algebra_simps)

lemma DayFromYear_upper: "400 * DayFromYear y \<le> 146097 * y - 287810501"
proof -
  define a where "a = (y - 1969) div 4"
  define b where "b = (y - 1901) div 100"
  define c where "c = (y - 1601) div 400"
  have a: "4 * a \<le> y - 1969" unfolding a_def by simp
  have b: "100 * b \<ge> y - 2000"
    unfolding b_def using pos_mod_bound [of 100 "y - 1901"]
    by (simp add: minus_mod_eq_mult_div [symmetric])
  have c: "400 * c \<le> y - 1601" unfolding c_def by simp
  have "400 * DayFromYear y = 146000 * y - 287620000 + 400 * a - 400 * b + 400 * c"
    unfolding a_def b_def c_def by (rule DayFromYear_flat)
  then show ?thesis using a b c by linarith
qed

lemma DayFromYear_lower: "146097 * y - 287811596 \<le> 400 * DayFromYear y"
proof -
  define a where "a = (y - 1969) div 4"
  define b where "b = (y - 1901) div 100"
  define c where "c = (y - 1601) div 400"
  have a: "4 * a \<ge> y - 1972"
    unfolding a_def using pos_mod_bound [of 4 "y - 1969"]
    by (simp add: minus_mod_eq_mult_div [symmetric])
  have b: "100 * b \<le> y - 1901" unfolding b_def by simp
  have c: "400 * c \<ge> y - 2000"
    unfolding c_def using pos_mod_bound [of 400 "y - 1601"]
    by (simp add: minus_mod_eq_mult_div [symmetric])
  have "400 * DayFromYear y = 146000 * y - 287620000 + 400 * a - 400 * b + 400 * c"
    unfolding a_def b_def c_def by (rule DayFromYear_flat)
  then show ?thesis using a b c by linarith
qed

lemma YearFromDay_correct:
  "DayFromYear (YearFromDay d) \<le> d \<and> d < DayFromYear (YearFromDay d + 1)"
proof -
  define q where "q = (d * 400) div 146097"
  define y0 where "y0 = 1970 + q"
  have q1: "146097 * q \<le> 400 * d"
    unfolding q_def by (simp add: mult.commute)
  have q2: "400 * d < 146097 * q + 146097"
    unfolding q_def using pos_mod_bound [of 146097 "d * 400"]
    by (simp add: minus_mod_eq_mult_div [symmetric])
  have y0: "146097 * y0 = 287811090 + 146097 * q"
    by (simp add: y0_def)
  have "400 * DayFromYear (y0 - 1) \<le> 146097 * (y0 - 1) - 287810501"
    by (rule DayFromYear_upper)
  then have "400 * DayFromYear (y0 - 1) \<le> 146097 * y0 - 287956598"
    by (simp add: algebra_simps)
  then have lo: "DayFromYear (y0 - 1) \<le> d"
    using q1 y0 by linarith
  have "146097 * (y0 + 2) - 287811596 \<le> 400 * DayFromYear (y0 + 2)"
    by (rule DayFromYear_lower)
  then have "146097 * y0 - 287519402 \<le> 400 * DayFromYear (y0 + 2)"
    by (simp add: algebra_simps)
  then have hi: "d < DayFromYear (y0 + 2)"
    using q2 y0 by linarith
  have y: "YearFromDay d =
     (if DayFromYear (y0 + 1) \<le> d then y0 + 1
      else if DayFromYear y0 \<le> d then y0 else y0 - 1)"
    by (simp add: YearFromDay_def Let_def q_def y0_def)
  have two: "y0 + 1 + 1 = y0 + 2" "y0 - 1 + 1 = y0" by simp_all
  show ?thesis using lo hi unfolding y by (auto simp: two)
qed

lemma div_step:
  fixes k :: int
  assumes "0 < n"
  shows "(k + 1) div n = k div n + (if (k + 1) mod n = 0 then 1 else 0)"
proof (cases "(k + 1) mod n = 0")
  case True
  then obtain m where m: "k + 1 = n * m" by (auto simp: mod_eq_0_iff_dvd)
  then have k: "k = n * (m - 1) + (n - 1)" by (simp add: algebra_simps)
  have "(n * (m - 1) + (n - 1)) div n = m - 1"
    using assms by simp
  then have "k div n = m - 1" using k by simp
  moreover have "(k + 1) div n = m" unfolding m using assms by simp
  ultimately show ?thesis using True by simp
next
  case False
  define r where "r = (k + 1) mod n"
  have "0 \<le> r" "r < n" unfolding r_def using assms by simp_all
  with False have r: "0 \<le> r - 1" "r - 1 < n" unfolding r_def by simp_all
  have "k + 1 = n * ((k + 1) div n) + r" unfolding r_def by simp
  then have "k = n * ((k + 1) div n) + (r - 1)" by simp
  moreover have "(n * ((k + 1) div n) + (r - 1)) div n = (k + 1) div n"
    using r assms by simp
  ultimately have "k div n = (k + 1) div n" by simp
  then show ?thesis using False by simp
qed

lemma mod_shift4: "((y::int) - 1968) mod 4 = y mod 4"
proof -
  have "(y - 1968) mod 4 = (y - 1968 mod 4) mod 4" by (rule mod_diff_right_eq [symmetric])
  then show ?thesis by simp
qed

lemma mod_shift100: "((y::int) - 1900) mod 100 = y mod 100"
proof -
  have "(y - 1900) mod 100 = (y - 1900 mod 100) mod 100" by (rule mod_diff_right_eq [symmetric])
  then show ?thesis by simp
qed

lemma mod_shift400: "((y::int) - 1600) mod 400 = y mod 400"
proof -
  have "(y - 1600) mod 400 = (y - 1600 mod 400) mod 400" by (rule mod_diff_right_eq [symmetric])
  then show ?thesis by simp
qed

lemma leap_a: "((y::int) - 1968) div 4 = (y - 1969) div 4 + (if y mod 4 = 0 then 1 else 0)"
  using div_step [of 4 "y - 1969"] by (simp add: mod_shift4)

lemma leap_b: "((y::int) - 1900) div 100 = (y - 1901) div 100 + (if y mod 100 = 0 then 1 else 0)"
  using div_step [of 100 "y - 1901"] by (simp add: mod_shift100)

lemma leap_c: "((y::int) - 1600) div 400 = (y - 1601) div 400 + (if y mod 400 = 0 then 1 else 0)"
  using div_step [of 400 "y - 1601"] by (simp add: mod_shift400)

lemma mod_100_4: "(y::int) mod 100 = 0 \<Longrightarrow> y mod 4 = 0"
proof -
  assume "y mod 100 = 0"
  then have "100 dvd y" by (simp add: mod_eq_0_iff_dvd)
  moreover have "(4::int) dvd 100" by simp
  ultimately have "4 dvd y" by (metis dvd_trans)
  then show ?thesis by (simp add: mod_eq_0_iff_dvd)
qed

lemma mod_400_100: "(y::int) mod 400 = 0 \<Longrightarrow> y mod 100 = 0"
proof -
  assume "y mod 400 = 0"
  then have "400 dvd y" by (simp add: mod_eq_0_iff_dvd)
  moreover have "(100::int) dvd 400" by simp
  ultimately have "100 dvd y" by (metis dvd_trans)
  then show ?thesis by (simp add: mod_eq_0_iff_dvd)
qed

lemma DayFromYear_succ:
  "DayFromYear (y + 1)
     = 365 * (y - 1969) + (y - 1968) div 4 - (y - 1900) div 100 + (y - 1600) div 400"
  by (simp add: DayFromYear_def)

lemma leap_days:
  "365 + (if (y::int) mod 4 = 0 then 1 else 0) - (if y mod 100 = 0 then 1 else 0)
     + (if y mod 400 = 0 then 1 else 0) = DaysInYear y"
proof -
  define p4 where "p4 = (y mod 4 = 0)"
  define p100 where "p100 = (y mod 100 = 0)"
  define p400 where "p400 = (y mod 400 = 0)"
  have i: "p100 \<longrightarrow> p4" "p400 \<longrightarrow> p100"
    unfolding p4_def p100_def p400_def
    by (rule impI, erule mod_100_4) (rule impI, erule mod_400_100)
  have "DaysInYear y = (if \<not> p4 then 365 else if \<not> p100 then 366 else if \<not> p400 then 365 else 366)"
    by (simp add: DaysInYear_def p4_def p100_def p400_def)
  moreover have "365 + (if p4 then 1 else 0) - (if p100 then 1 else 0) + (if p400 then 1 else 0)
      = (if \<not> p4 then 365 else if \<not> p100 then 366 else if \<not> p400 then 365 else (366::int))"
    using i by (cases p4; cases p100; cases p400) simp_all
  ultimately show ?thesis by (simp add: p4_def p100_def p400_def)
qed

lemma DayFromYear_step: "DayFromYear (y + 1) = DayFromYear y + DaysInYear y"
proof -
  define a where "a = (y - 1969) div 4"
  define b where "b = (y - 1901) div 100"
  define c where "c = (y - 1601) div 400"
  define ia where "ia = (if y mod 4 = 0 then 1 else 0 :: int)"
  define ib where "ib = (if y mod 100 = 0 then 1 else 0 :: int)"
  define ic where "ic = (if y mod 400 = 0 then 1 else 0 :: int)"
  have "DayFromYear (y + 1) = 365 * (y - 1969) + (a + ia) - (b + ib) + (c + ic)"
    unfolding DayFromYear_succ leap_a leap_b leap_c a_def b_def c_def ia_def ib_def ic_def ..
  moreover have "DayFromYear y = 365 * (y - 1970) + a - b + c"
    by (simp add: DayFromYear_def a_def b_def c_def)
  moreover have "365 + ia - ib + ic = DaysInYear y"
    unfolding ia_def ib_def ic_def by (rule leap_days)
  ultimately show ?thesis by (simp add: algebra_simps)
qed

lemma WeekDay_range: "0 \<le> WeekDay t \<and> WeekDay t < 7"
  by (simp add: WeekDay_def)

lemma MonthFromTime_range: "0 \<le> MonthFromTime t \<and> MonthFromTime t < 12"
  by (simp add: MonthFromTime_def Let_def)

end
